theory Spec2Isabelle
  imports Complex_Main "HOL-Library.Multiset"
begin

section \<open>Data model of \<^verbatim>\<open>backend/turbo_server.py\<close>\<close>

text \<open>
  The server keeps all of its state in MongoDB collections. A collection is modelled as
  the list of its documents in insertion (natural) order; a document is the record of the
  pydantic model whose \<^verbatim>\<open>.dict()\<close> the server inserts, so every key of the model is
  present and \<^verbatim>\<open>doc.get(k, default)\<close> reads the key \<^verbatim>\<open>k\<close>.

  \<^verbatim>\<open>datetime\<close> and \<^verbatim>\<open>date\<close> values are integers (a tick count and a day count); the
  \<open>received_date\<close> and \<open>estimated_completion\<close> of a stored work order are the days
  that \<^verbatim>\<open>WorkOrder(**doc)\<close> reads from what the store holds for them.
  \<^verbatim>\<open>float\<close> prices are only stored and copied by the operations below and are carried
  as \<^typ>\<open>real\<close>. Field names are the source's; where two models share a field name the
  name carries a short prefix of its model.
\<close>

type_synonym datetime = int
type_synonym date = int

datatype WorkStatus =
  DRAFT | RECEIVED | IN_PROGRESS | QUOTED | ACCEPTED | REJECTED | WORKING | READY
  | DELIVERED | FINALIZED

datatype DocumentType = IPOS | FACT_CHIT | FACT | BON_F

datatype NoteType = INFO | WARNING | CRITICAL

record TurboNote =
  tn_id :: string
  tn_turbo_code :: string
  tn_note_type :: NoteType
  tn_title :: string
  tn_description :: string
  tn_created_by :: string
  tn_created_at :: datetime
  tn_active :: bool

record CarNote =
  cn_id :: string
  cn_car_make :: string
  cn_car_model :: string
  cn_engine_code :: "string option"
  cn_note_type :: NoteType
  cn_title :: string
  cn_description :: string
  cn_created_by :: string
  cn_created_at :: datetime
  cn_active :: bool

record Client =
  cl_id :: string
  cl_name :: string
  cl_phone :: string
  cl_email :: "string option"
  cl_address :: "string option"
  cl_company_name :: "string option"
  cl_tax_number :: "string option"
  cl_notes :: "string option"
  cl_created_at :: datetime
  cl_updated_at :: datetime

record WorkOrderProcess =
  process_id :: string
  process_name :: string
  pr_category :: string
  estimated_time :: int
  pr_price :: real
  pr_selected :: bool
  pr_notes :: string

record WorkOrderPart =
  part_id :: string
  part_code :: string
  pa_category :: string
  pa_supplier :: string
  pa_price :: real
  pa_selected :: bool

record WorkOrder =
  wo_id :: string
  work_number :: string
  work_sequence :: int
  client_id :: string
  vehicle_id :: "string option"
  turbo_code :: string
  car_make :: string
  car_model :: string
  car_year :: "int option"
  engine_code :: "string option"
  general_notes :: string
  received_date :: date
  parts :: "WorkOrderPart list"
  processes :: "WorkOrderProcess list"
  status_passed :: bool
  status_refused :: bool
  cleaning_price :: real
  reconditioning_price :: real
  turbo_price :: real
  status :: WorkStatus
  is_finalized :: bool
  quote_sent :: bool
  quote_accepted :: bool
  estimated_completion :: "date option"
  documents_generated :: "DocumentType list"
  finalized :: bool
  client_notified :: bool
  created_at :: datetime
  updated_at :: datetime
  finalized_at :: "datetime option"

record WorkOrderCreate =
  c_client_id :: string
  c_turbo_code :: string
  c_car_make :: string
  c_car_model :: string
  c_car_year :: "int option"
  c_engine_code :: "string option"
  c_general_notes :: string

record WorkOrderUpdate =
  u_work_sequence :: "int option"
  u_turbo_code :: "string option"
  u_car_make :: "string option"
  u_car_model :: "string option"
  u_car_year :: "int option"
  u_engine_code :: "string option"
  u_general_notes :: "string option"
  u_parts :: "WorkOrderPart list option"
  u_processes :: "WorkOrderProcess list option"
  u_status_passed :: "bool option"
  u_status_refused :: "bool option"
  u_cleaning_price :: "real option"
  u_reconditioning_price :: "real option"
  u_turbo_price :: "real option"
  u_status :: "WorkStatus option"
  u_is_finalized :: "bool option"
  u_quote_sent :: "bool option"
  u_quote_accepted :: "bool option"
  u_estimated_completion :: "date option"
  u_finalized :: "bool option"
  u_client_notified :: "bool option"
  u_finalized_at :: "datetime option"

record InventoryItem =
  it_id :: string
  it_name :: string
  it_code :: string
  it_category :: string
  current_stock :: int
  min_stock :: int
  max_stock :: int
  it_unit :: string
  it_location :: "string option"
  it_supplier :: "string option"
  it_purchase_price :: real
  it_notes :: "string option"
  it_active :: bool
  it_created_at :: datetime
  it_updated_at :: datetime

record InventoryMovement =
  mv_id :: string
  item_id :: string
  movement_type :: string
  quantity :: int
  reason :: string
  reference :: "string option"
  mv_notes :: "string option"
  created_by :: string
  mv_created_at :: datetime
  stock_before :: int
  stock_after :: int

record InventoryMovementCreate =
  r_item_id :: string
  r_movement_type :: string
  r_quantity :: int
  r_reason :: string
  r_reference :: "string option"
  r_notes :: "string option"

text \<open>The database \<^verbatim>\<open>db\<close>: the collections the operations below read and write.\<close>

record database =
  clients :: "Client list"
  work_orders :: "WorkOrder list"
  turbo_notes :: "TurboNote list"
  car_notes :: "CarNote list"
  inventory_items :: "InventoryItem list"
  inventory_movements :: "InventoryMovement list"


section \<open>Errors and the collection primitives\<close>

text \<open>
  \<^verbatim>\<open>HTTPException(status_code, detail)\<close>. The detail is a Hungarian message; each
  message used below is one constructor:
  \<^item> \<open>Client_not_found\<close>: "Ugyfel nem talalhato",
  \<^item> \<open>Work_order_not_found\<close>: "Munkalap nem talalhato",
  \<^item> \<open>Finalized_not_deletable\<close>: "Veglegesitett munkalapot nem lehet torolni!",
  \<^item> \<open>Already_finalized\<close>: "A munkalap mar veglegesitve van",
  \<^item> \<open>Item_not_found\<close>: "Alkatresz nem talalhato",
  \<^item> \<open>Insufficient_stock cur req\<close>: "Nincs elegendo keszlet. Jelenlegi: cur, kert: req".

  \<open>TypeError\<close> is the uncaught Python exception of \<^verbatim>\<open>WorkOrder(**None)\<close>.
  \<open>InvalidDocument\<close> (\<^verbatim>\<open>bson.errors.InvalidDocument\<close>) and \<open>OverflowError\<close> are the
  exceptions that the MongoDB driver raises while it encodes a document; no handler
  catches them.
\<close>

datatype detail =
  Client_not_found | Work_order_not_found | Finalized_not_deletable | Already_finalized
  | Item_not_found | Insufficient_stock int int

datatype error =
  HTTPException (status_code: int) (detail: detail) | TypeError | InvalidDocument
  | OverflowError

text \<open>\<^verbatim>\<open>find_one\<close>, \<^verbatim>\<open>update_one\<close> and \<^verbatim>\<open>delete_one\<close> act on the first document that
  matches the query; \<^verbatim>\<open>delete_one\<close> also returns \<^verbatim>\<open>deleted_count\<close>.\<close>

definition find_one :: "('a \<Rightarrow> bool) \<Rightarrow> 'a list \<Rightarrow> 'a option" where
  "find_one q xs = List.find q xs"

fun update_one :: "('a \<Rightarrow> bool) \<Rightarrow> ('a \<Rightarrow> 'a) \<Rightarrow> 'a list \<Rightarrow> 'a list" where
  "update_one q f [] = []"
| "update_one q f (x # xs) = (if q x then f x # xs else x # update_one q f xs)"

fun delete_one :: "('a \<Rightarrow> bool) \<Rightarrow> 'a list \<Rightarrow> 'a list \<times> nat" where
  "delete_one q [] = ([], 0)"
| "delete_one q (x # xs) =
     (if q x then (xs, 1) else (case delete_one q xs of (ys, n) \<Rightarrow> (x # ys, n)))"

definition insert_one :: "'a \<Rightarrow> 'a list \<Rightarrow> 'a list" where
  "insert_one x xs = xs @ [x]"

text \<open>\<^verbatim>\<open>.sort(key, 1)\<close> and \<^verbatim>\<open>.sort(key, -1)\<close> on an integer key (stable), and
  \<^verbatim>\<open>.limit(n)\<close> / \<^verbatim>\<open>.to_list(n)\<close>.\<close>

definition sort_asc :: "('a \<Rightarrow> int) \<Rightarrow> 'a list \<Rightarrow> 'a list" where
  "sort_asc key xs = sort_key key xs"

definition sort_desc :: "('a \<Rightarrow> int) \<Rightarrow> 'a list \<Rightarrow> 'a list" where
  "sort_desc key xs = sort_key (\<lambda>x. - key x) xs"

definition limit :: "nat \<Rightarrow> 'a list \<Rightarrow> 'a list" where
  "limit n xs = take n xs"

definition to_list :: "nat \<Rightarrow> 'a list \<Rightarrow> 'a list" where
  "to_list n xs = take n xs"

section \<open>Python's \<^verbatim>\<open>f"{n:05d}"\<close>\<close>

text \<open>\<open>str_nat n\<close> is \<^verbatim>\<open>str(n)\<close> for \<open>n \<ge> 0\<close>. The format \<^verbatim>\<open>05d\<close> pads with zeros
  between the sign and the digits up to a total width of 5, and never truncates.\<close>

definition digit_char :: "nat \<Rightarrow> char" where
  "digit_char d = ''0123456789'' ! d"

fun str_nat :: "nat \<Rightarrow> string" where
  "str_nat n = (if n < 10 then [digit_char n] else str_nat (n div 10) @ [digit_char (n mod 10)])"

declare str_nat.simps [simp del]

definition zero_fill :: "nat \<Rightarrow> string \<Rightarrow> string" where
  "zero_fill w s = replicate (w - length s) (CHR ''0'') @ s"

definition format_05d :: "int \<Rightarrow> string" where
  "format_05d n =
     (if n < 0 then CHR ''-'' # zero_fill 4 (str_nat (nat (- n)))
      else zero_fill 5 (str_nat (nat n)))"

text \<open>Reading a string of decimal digits back (\<^verbatim>\<open>int(s)\<close>), used to state what
  \<open>format_05d\<close> renders.\<close>

definition is_digit :: "char \<Rightarrow> bool" where
  "is_digit c \<longleftrightarrow> c \<in> set ''0123456789''"

definition digit_value :: "char \<Rightarrow> nat" where
  "digit_value c = of_char c - 48"

definition parse_nat :: "string \<Rightarrow> nat" where
  "parse_nat s = foldl (\<lambda>a c. 10 * a + digit_value c) 0 s"

section \<open>Documents as the driver encodes them\<close>

text \<open>
  \<^verbatim>\<open>insert_one\<close> and \<^verbatim>\<open>update_one\<close> receive Python dictionaries, which the driver
  encodes to BSON before anything reaches the store. \<open>py_value\<close> are the Python values
  that the \<^verbatim>\<open>.dict()\<close> of a work-order model holds: \<^verbatim>\<open>None\<close>, \<^verbatim>\<open>bool\<close>, \<^verbatim>\<open>int\<close>,
  \<^verbatim>\<open>float\<close>, \<^verbatim>\<open>str\<close> (also the members of the \<^verbatim>\<open>(str, Enum)\<close> classes, which encode
  as their string), \<^verbatim>\<open>datetime.datetime\<close>, \<^verbatim>\<open>datetime.date\<close>, lists and nested
  dictionaries.

  The encoder writes the items of a dictionary in order and raises at the first value it
  cannot write: a \<^verbatim>\<open>datetime.date\<close> that is not a \<^verbatim>\<open>datetime.datetime\<close> has no BSON
  type (\<open>InvalidDocument\<close>), and an \<^verbatim>\<open>int\<close> has to fit in 8 bytes (\<open>OverflowError\<close>).
  \<open>bson_error v\<close> is the exception raised while \<open>v\<close> is encoded, and \<open>None\<close> when \<open>v\<close>
  encodes. The limit of the store on the size of one document (16 MB) is outside the
  model: documents are taken to be smaller.
\<close>

datatype py_value =
    PyNone | PyBool bool | PyInt int | PyFloat real | PyStr string
  | PyDatetime datetime | PyDate date
  | PyList "py_value list" | PyDict "(string \<times> py_value) list"

definition int64 :: "int \<Rightarrow> bool" where
  "int64 i \<longleftrightarrow> - (2 ^ 63) \<le> i \<and> i < 2 ^ 63"

fun first_error :: "error option list \<Rightarrow> error option" where
  "first_error [] = None"
| "first_error (None # es) = first_error es"
| "first_error (Some e # es) = Some e"

fun bson_error :: "py_value \<Rightarrow> error option" where
  "bson_error (PyInt i) = (if int64 i then None else Some OverflowError)"
| "bson_error (PyDate d) = Some InvalidDocument"
| "bson_error (PyList xs) = first_error (map bson_error xs)"
| "bson_error (PyDict kvs) = first_error (map (\<lambda>(k, v). bson_error v) kvs)"
| "bson_error _ = None"

text \<open>The \<^verbatim>\<open>.dict()\<close> of the models, keys in the order of the fields; an
  \<^verbatim>\<open>Optional\<close> field holds \<^verbatim>\<open>None\<close> or its value.\<close>

fun WorkStatus_value :: "WorkStatus \<Rightarrow> string" where
  "WorkStatus_value DRAFT = ''DRAFT''"
| "WorkStatus_value RECEIVED = ''RECEIVED''"
| "WorkStatus_value IN_PROGRESS = ''IN_PROGRESS''"
| "WorkStatus_value QUOTED = ''QUOTED''"
| "WorkStatus_value ACCEPTED = ''ACCEPTED''"
| "WorkStatus_value REJECTED = ''REJECTED''"
| "WorkStatus_value WORKING = ''WORKING''"
| "WorkStatus_value READY = ''READY''"
| "WorkStatus_value DELIVERED = ''DELIVERED''"
| "WorkStatus_value FINALIZED = ''FINALIZED''"

fun DocumentType_value :: "DocumentType \<Rightarrow> string" where
  "DocumentType_value IPOS = ''IPOS''"
| "DocumentType_value FACT_CHIT = ''FACT_CHIT''"
| "DocumentType_value FACT = ''FACT''"
| "DocumentType_value BON_F = ''BON_F''"

definition py_optional :: "('a \<Rightarrow> py_value) \<Rightarrow> 'a option \<Rightarrow> py_value" where
  "py_optional py v = (case v of None \<Rightarrow> PyNone | Some x \<Rightarrow> py x)"

definition WorkOrderPart_dict :: "WorkOrderPart \<Rightarrow> (string \<times> py_value) list" where
  "WorkOrderPart_dict p =
     [(''part_id'', PyStr (part_id p)),
      (''part_code'', PyStr (part_code p)),
      (''category'', PyStr (pa_category p)),
      (''supplier'', PyStr (pa_supplier p)),
      (''price'', PyFloat (pa_price p)),
      (''selected'', PyBool (pa_selected p))]"

definition WorkOrderProcess_dict :: "WorkOrderProcess \<Rightarrow> (string \<times> py_value) list" where
  "WorkOrderProcess_dict p =
     [(''process_id'', PyStr (process_id p)),
      (''process_name'', PyStr (process_name p)),
      (''category'', PyStr (pr_category p)),
      (''estimated_time'', PyInt (estimated_time p)),
      (''price'', PyFloat (pr_price p)),
      (''selected'', PyBool (pr_selected p)),
      (''notes'', PyStr (pr_notes p))]"

definition py_parts :: "WorkOrderPart list \<Rightarrow> py_value" where
  "py_parts ps = PyList (map (\<lambda>p. PyDict (WorkOrderPart_dict p)) ps)"

definition py_processes :: "WorkOrderProcess list \<Rightarrow> py_value" where
  "py_processes ps = PyList (map (\<lambda>p. PyDict (WorkOrderProcess_dict p)) ps)"

definition WorkOrder_dict :: "WorkOrder \<Rightarrow> (string \<times> py_value) list" where
  "WorkOrder_dict d =
     [(''id'', PyStr (wo_id d)),
      (''work_number'', PyStr (work_number d)),
      (''work_sequence'', PyInt (work_sequence d)),
      (''client_id'', PyStr (client_id d)),
      (''vehicle_id'', py_optional PyStr (vehicle_id d)),
      (''turbo_code'', PyStr (turbo_code d)),
      (''car_make'', PyStr (car_make d)),
      (''car_model'', PyStr (car_model d)),
      (''car_year'', py_optional PyInt (car_year d)),
      (''engine_code'', py_optional PyStr (engine_code d)),
      (''general_notes'', PyStr (general_notes d)),
      (''received_date'', PyDate (received_date d)),
      (''parts'', py_parts (parts d)),
      (''processes'', py_processes (processes d)),
      (''status_passed'', PyBool (status_passed d)),
      (''status_refused'', PyBool (status_refused d)),
      (''cleaning_price'', PyFloat (cleaning_price d)),
      (''reconditioning_price'', PyFloat (reconditioning_price d)),
      (''turbo_price'', PyFloat (turbo_price d)),
      (''status'', PyStr (WorkStatus_value (status d))),
      (''is_finalized'', PyBool (is_finalized d)),
      (''quote_sent'', PyBool (quote_sent d)),
      (''quote_accepted'', PyBool (quote_accepted d)),
      (''estimated_completion'', py_optional PyDate (estimated_completion d)),
      (''documents_generated'',
         PyList (map (\<lambda>t. PyStr (DocumentType_value t)) (documents_generated d))),
      (''finalized'', PyBool (finalized d)),
      (''client_notified'', PyBool (client_notified d)),
      (''created_at'', PyDatetime (created_at d)),
      (''updated_at'', PyDatetime (updated_at d)),
      (''finalized_at'', py_optional PyDatetime (finalized_at d))]"

definition WorkOrderUpdate_dict :: "WorkOrderUpdate \<Rightarrow> (string \<times> py_value) list" where
  "WorkOrderUpdate_dict u =
     [(''work_sequence'', py_optional PyInt (u_work_sequence u)),
      (''turbo_code'', py_optional PyStr (u_turbo_code u)),
      (''car_make'', py_optional PyStr (u_car_make u)),
      (''car_model'', py_optional PyStr (u_car_model u)),
      (''car_year'', py_optional PyInt (u_car_year u)),
      (''engine_code'', py_optional PyStr (u_engine_code u)),
      (''general_notes'', py_optional PyStr (u_general_notes u)),
      (''parts'', py_optional py_parts (u_parts u)),
      (''processes'', py_optional py_processes (u_processes u)),
      (''status_passed'', py_optional PyBool (u_status_passed u)),
      (''status_refused'', py_optional PyBool (u_status_refused u)),
      (''cleaning_price'', py_optional PyFloat (u_cleaning_price u)),
      (''reconditioning_price'', py_optional PyFloat (u_reconditioning_price u)),
      (''turbo_price'', py_optional PyFloat (u_turbo_price u)),
      (''status'', py_optional (\<lambda>s. PyStr (WorkStatus_value s)) (u_status u)),
      (''is_finalized'', py_optional PyBool (u_is_finalized u)),
      (''quote_sent'', py_optional PyBool (u_quote_sent u)),
      (''quote_accepted'', py_optional PyBool (u_quote_accepted u)),
      (''estimated_completion'', py_optional PyDate (u_estimated_completion u)),
      (''finalized'', py_optional PyBool (u_finalized u)),
      (''client_notified'', py_optional PyBool (u_client_notified u)),
      (''finalized_at'', py_optional PyDatetime (u_finalized_at u))]"

section \<open>Work orders\<close>

text \<open>
  Each operation takes the database and returns the database after it together with the
  response or the raised error, so that writes made before a \<^verbatim>\<open>raise\<close> stay visible.
  What the environment supplies is a parameter: \<open>uuid4\<close> is the identifier drawn by
  \<^verbatim>\<open>uuid.uuid4()\<close>, \<open>today\<close> is \<^verbatim>\<open>date.today()\<close>, and \<open>utcnow k\<close> is the value of the
  \<open>k\<close>-th call (from 0) of \<^verbatim>\<open>datetime.utcnow()\<close> during the request.

  \<^verbatim>\<open>create_work_order\<close> and \<^verbatim>\<open>update_work_order\<close> pass the \<^verbatim>\<open>.dict()\<close> of a model to the
  driver. The driver encodes it first, so when \<open>bson_error\<close> gives an exception the
  request ends with that exception and the collection is as it was. The documents that
  \<^verbatim>\<open>recalculate_sequence_numbers\<close>, \<^verbatim>\<open>finalize_work_order\<close> and
  \<^verbatim>\<open>unfinalize_work_order\<close> write are literals holding a position of at most 1000, a
  string, booleans, \<^verbatim>\<open>None\<close> and \<^verbatim>\<open>datetime.utcnow()\<close>, which always encode.
\<close>

definition get_next_sequence_number :: "database \<Rightarrow> int" where
  "get_next_sequence_number db =
     (let result = to_list 1 (limit 1 (sort_desc work_sequence (work_orders db)))
      in case result of
           r # _ \<Rightarrow> work_sequence r + 1
         | [] \<Rightarrow> 1)"

definition renumber :: "(nat \<Rightarrow> datetime) \<Rightarrow> nat \<Rightarrow> WorkOrder \<Rightarrow> WorkOrder" where
  "renumber utcnow index d =
     d\<lparr>work_sequence := int index,
       work_number := format_05d (int index),
       updated_at := utcnow (index - 1)\<rparr>"

definition recalculate_sequence_numbers :: "(nat \<Rightarrow> datetime) \<Rightarrow> database \<Rightarrow> database" where
  "recalculate_sequence_numbers utcnow db =
     (let work_orders_list = to_list 1000 (sort_asc created_at (work_orders db))
      in fold (\<lambda>(index, work_order) db'.
                 db'\<lparr>work_orders :=
                       update_one (\<lambda>d. wo_id d = wo_id work_order) (renumber utcnow index)
                         (work_orders db')\<rparr>)
              (enumerate 1 work_orders_list) db)"

definition create_work_order ::
  "string \<Rightarrow> date \<Rightarrow> (nat \<Rightarrow> datetime) \<Rightarrow> WorkOrderCreate \<Rightarrow> database
     \<Rightarrow> database \<times> (error + WorkOrder)" where
  "create_work_order uuid4 today utcnow work_order db =
     (case find_one (\<lambda>c. cl_id c = c_client_id work_order) (clients db) of
        None \<Rightarrow> (db, Inl (HTTPException 400 Client_not_found))
      | Some client \<Rightarrow>
          (let next_sequence = get_next_sequence_number db;
               new_work_number = format_05d next_sequence;
               work_order_obj =
                 \<lparr>wo_id = uuid4,
                  work_number = new_work_number,
                  work_sequence = next_sequence,
                  client_id = c_client_id work_order,
                  vehicle_id = None,
                  turbo_code = c_turbo_code work_order,
                  car_make = c_car_make work_order,
                  car_model = c_car_model work_order,
                  car_year = c_car_year work_order,
                  engine_code = c_engine_code work_order,
                  general_notes = c_general_notes work_order,
                  received_date = today,
                  parts = [],
                  processes = [],
                  status_passed = False,
                  status_refused = False,
                  cleaning_price = 170,
                  reconditioning_price = 170,
                  turbo_price = 240,
                  status = DRAFT,
                  is_finalized = False,
                  quote_sent = False,
                  quote_accepted = False,
                  estimated_completion = None,
                  documents_generated = [],
                  finalized = False,
                  client_notified = False,
                  created_at = utcnow 0,
                  updated_at = utcnow 1,
                  finalized_at = None\<rparr>
           in case bson_error (PyDict (WorkOrder_dict work_order_obj)) of
                Some e \<Rightarrow> (db, Inl e)
              | None \<Rightarrow>
                  (db\<lparr>work_orders := insert_one work_order_obj (work_orders db)\<rparr>,
                   Inr work_order_obj)))"

text \<open>\<^verbatim>\<open>update_data = {k: v for k, v in work_order_update.dict().items() if v is not None}\<close>.\<close>

definition update_data :: "WorkOrderUpdate \<Rightarrow> (string \<times> py_value) list" where
  "update_data work_order_update =
     filter (\<lambda>(k, v). v \<noteq> PyNone) (WorkOrderUpdate_dict work_order_update)"

text \<open>What \<^verbatim>\<open>{"$set": update_data}\<close> does to the stored document once the driver has
  encoded it: \<open>set_field\<close> assigns one key, which is in \<open>update_data\<close> iff the field
  of the payload is not \<open>None\<close>, and \<open>now\<close> is the \<open>updated_at\<close> that the handler adds
  to \<open>update_data\<close>. \<open>update_work_order\<close> below gets this far only with an
  \<open>update_data\<close> that encodes, hence never with one that holds \<open>estimated_completion\<close>.\<close>

definition set_field :: "('v \<Rightarrow> 'd \<Rightarrow> 'd) \<Rightarrow> 'v option \<Rightarrow> 'd \<Rightarrow> 'd" where
  "set_field upd v d = (case v of None \<Rightarrow> d | Some x \<Rightarrow> upd x d)"

definition set_update_data :: "WorkOrderUpdate \<Rightarrow> datetime \<Rightarrow> WorkOrder \<Rightarrow> WorkOrder" where
  "set_update_data u now d =
     fold (\<lambda>assign d. assign d)
       [set_field (\<lambda>v d. d\<lparr>work_sequence := v\<rparr>) (u_work_sequence u),
        set_field (\<lambda>v d. d\<lparr>turbo_code := v\<rparr>) (u_turbo_code u),
        set_field (\<lambda>v d. d\<lparr>car_make := v\<rparr>) (u_car_make u),
        set_field (\<lambda>v d. d\<lparr>car_model := v\<rparr>) (u_car_model u),
        set_field (\<lambda>v d. d\<lparr>car_year := Some v\<rparr>) (u_car_year u),
        set_field (\<lambda>v d. d\<lparr>engine_code := Some v\<rparr>) (u_engine_code u),
        set_field (\<lambda>v d. d\<lparr>general_notes := v\<rparr>) (u_general_notes u),
        set_field (\<lambda>v d. d\<lparr>parts := v\<rparr>) (u_parts u),
        set_field (\<lambda>v d. d\<lparr>processes := v\<rparr>) (u_processes u),
        set_field (\<lambda>v d. d\<lparr>status_passed := v\<rparr>) (u_status_passed u),
        set_field (\<lambda>v d. d\<lparr>status_refused := v\<rparr>) (u_status_refused u),
        set_field (\<lambda>v d. d\<lparr>cleaning_price := v\<rparr>) (u_cleaning_price u),
        set_field (\<lambda>v d. d\<lparr>reconditioning_price := v\<rparr>) (u_reconditioning_price u),
        set_field (\<lambda>v d. d\<lparr>turbo_price := v\<rparr>) (u_turbo_price u),
        set_field (\<lambda>v d. d\<lparr>status := v\<rparr>) (u_status u),
        set_field (\<lambda>v d. d\<lparr>is_finalized := v\<rparr>) (u_is_finalized u),
        set_field (\<lambda>v d. d\<lparr>quote_sent := v\<rparr>) (u_quote_sent u),
        set_field (\<lambda>v d. d\<lparr>quote_accepted := v\<rparr>) (u_quote_accepted u),
        set_field (\<lambda>v d. d\<lparr>estimated_completion := Some v\<rparr>) (u_estimated_completion u),
        set_field (\<lambda>v d. d\<lparr>finalized := v\<rparr>) (u_finalized u),
        set_field (\<lambda>v d. d\<lparr>client_notified := v\<rparr>) (u_client_notified u),
        set_field (\<lambda>v d. d\<lparr>finalized_at := Some v\<rparr>) (u_finalized_at u),
        (\<lambda>d. d\<lparr>updated_at := now\<rparr>)]
       d"

definition update_work_order ::
  "(nat \<Rightarrow> datetime) \<Rightarrow> string \<Rightarrow> WorkOrderUpdate \<Rightarrow> database
     \<Rightarrow> database \<times> (error + WorkOrder)" where
  "update_work_order utcnow work_order_id work_order_update db =
     (case find_one (\<lambda>d. wo_id d = work_order_id) (work_orders db) of
        None \<Rightarrow> (db, Inl (HTTPException 404 Work_order_not_found))
      | Some existing \<Rightarrow>
          (case (if update_data work_order_update \<noteq> []
                 then (case bson_error
                              (PyDict (update_data work_order_update
                                       @ [(''updated_at'', PyDatetime (utcnow 0))])) of
                         Some e \<Rightarrow> Inl e
                       | None \<Rightarrow>
                           Inr (db\<lparr>work_orders :=
                                      update_one (\<lambda>d. wo_id d = work_order_id)
                                        (set_update_data work_order_update (utcnow 0))
                                        (work_orders db)\<rparr>))
                 else Inr db) of
             Inl e \<Rightarrow> (db, Inl e)
           | Inr db' \<Rightarrow>
               (case find_one (\<lambda>d. wo_id d = work_order_id) (work_orders db') of
                  Some updated \<Rightarrow> (db', Inr updated)
                | None \<Rightarrow> (db', Inl TypeError))))"

definition delete_work_order ::
  "(nat \<Rightarrow> datetime) \<Rightarrow> string \<Rightarrow> database \<Rightarrow> database \<times> (error + unit)" where
  "delete_work_order utcnow work_order_id db =
     (case find_one (\<lambda>d. wo_id d = work_order_id) (work_orders db) of
        None \<Rightarrow> (db, Inl (HTTPException 404 Work_order_not_found))
      | Some work_order \<Rightarrow>
          if is_finalized work_order
          then (db, Inl (HTTPException 400 Finalized_not_deletable))
          else (case delete_one (\<lambda>d. wo_id d = work_order_id) (work_orders db) of
                  (remaining, deleted_count) \<Rightarrow>
                    (let db' = db\<lparr>work_orders := remaining\<rparr>
                     in if deleted_count = 0
                        then (db', Inl (HTTPException 404 Work_order_not_found))
                        else (recalculate_sequence_numbers utcnow db', Inr ()))))"

definition finalize_work_order ::
  "(nat \<Rightarrow> datetime) \<Rightarrow> string \<Rightarrow> database \<Rightarrow> database \<times> (error + WorkOrder)" where
  "finalize_work_order utcnow work_order_id db =
     (case find_one (\<lambda>d. wo_id d = work_order_id) (work_orders db) of
        None \<Rightarrow> (db, Inl (HTTPException 404 Work_order_not_found))
      | Some work_order \<Rightarrow>
          if is_finalized work_order
          then (db, Inl (HTTPException 400 Already_finalized))
          else (let db' = db\<lparr>work_orders :=
                              update_one (\<lambda>d. wo_id d = work_order_id)
                                (\<lambda>d. d\<lparr>is_finalized := True,
                                        finalized_at := Some (utcnow 0),
                                        updated_at := utcnow 1,
                                        status := RECEIVED\<rparr>)
                                (work_orders db)\<rparr>
                in case find_one (\<lambda>d. wo_id d = work_order_id) (work_orders db') of
                     Some updated \<Rightarrow> (db', Inr updated)
                   | None \<Rightarrow> (db', Inl TypeError)))"

definition unfinalize_work_order ::
  "(nat \<Rightarrow> datetime) \<Rightarrow> string \<Rightarrow> database \<Rightarrow> database \<times> (error + WorkOrder)" where
  "unfinalize_work_order utcnow work_order_id db =
     (case find_one (\<lambda>d. wo_id d = work_order_id) (work_orders db) of
        None \<Rightarrow> (db, Inl (HTTPException 404 Work_order_not_found))
      | Some work_order \<Rightarrow>
          (let db' = db\<lparr>work_orders :=
                         update_one (\<lambda>d. wo_id d = work_order_id)
                           (\<lambda>d. d\<lparr>is_finalized := False,
                                   finalized_at := None,
                                   updated_at := utcnow 0,
                                   status := DRAFT\<rparr>)
                           (work_orders db)\<rparr>
           in case find_one (\<lambda>d. wo_id d = work_order_id) (work_orders db') of
                Some updated \<Rightarrow> (db', Inr updated)
              | None \<Rightarrow> (db', Inl TypeError)))"

section \<open>Inventory movements\<close>

text \<open>The documents written here hold strings, a \<^verbatim>\<open>datetime\<close> and the integers of the
  stock arithmetic. Quantities and stocks are Python integers, which do not wrap; the
  8-byte range of the store is not drawn here, so the operation is modelled for
  quantities and stocks that the store can hold.\<close>

definition create_inventory_movement ::
  "string \<Rightarrow> (nat \<Rightarrow> datetime) \<Rightarrow> InventoryMovementCreate \<Rightarrow> database
     \<Rightarrow> database \<times> (error + InventoryMovement)" where
  "create_inventory_movement uuid4 utcnow movement0 db =
     (case find_one (\<lambda>i. it_id i = r_item_id movement0) (inventory_items db) of
        None \<Rightarrow> (db, Inl (HTTPException 404 Item_not_found))
      | Some item \<Rightarrow>
          (let stock_before' = current_stock item;
               movement =
                 (if r_movement_type movement0 = ''OUT'' \<and> r_quantity movement0 > 0
                  then movement0\<lparr>r_quantity := - r_quantity movement0\<rparr>
                  else movement0);
               stock_after' = stock_before' + r_quantity movement
           in if stock_after' < 0
              then (db, Inl (HTTPException 400
                               (Insufficient_stock stock_before' \<bar>r_quantity movement\<bar>)))
              else (let movement_obj =
                          \<lparr>mv_id = uuid4,
                           item_id = r_item_id movement,
                           movement_type = r_movement_type movement,
                           quantity = r_quantity movement,
                           reason = r_reason movement,
                           reference = r_reference movement,
                           mv_notes = r_notes movement,
                           created_by = ''System'',
                           mv_created_at = utcnow 0,
                           stock_before = stock_before',
                           stock_after = stock_after'\<rparr>;
                        db1 = db\<lparr>inventory_movements :=
                                   insert_one movement_obj (inventory_movements db)\<rparr>;
                        db2 = db1\<lparr>inventory_items :=
                                    update_one (\<lambda>i. it_id i = r_item_id movement)
                                      (\<lambda>i. i\<lparr>current_stock := stock_after',
                                              it_updated_at := utcnow 1\<rparr>)
                                      (inventory_items db1)\<rparr>
                    in (db2, Inr movement_obj))))"

section \<open>Warning flags of the work-order list\<close>

text \<open>
  \<^verbatim>\<open>get_work_orders\<close> runs an aggregation pipeline over \<^verbatim>\<open>work_orders\<close>. The three
  stages under "Check for warnings" are modelled, each as a function of the work-order
  document it is applied to:
  \<^item> \<^verbatim>\<open>$lookup\<close> from \<^verbatim>\<open>turbo_notes\<close> with \<^verbatim>\<open>localField = foreignField = turbo_code\<close>,
    stored as \<open>turbo_warnings\<close>;
  \<^item> \<^verbatim>\<open>$lookup\<close> from \<^verbatim>\<open>car_notes\<close> with the sub-pipeline
    \<^verbatim>\<open>$match {$expr: {$and: [car_make = $$make, car_model = $$model]}}\<close>, stored as
    \<open>car_warnings\<close>;
  \<^item> \<^verbatim>\<open>$addFields\<close> with \<^verbatim>\<open>has_turbo_warning = size(turbo_warnings) > 0\<close> and
    \<^verbatim>\<open>has_car_warning = size(car_warnings) > 0\<close>.

  The stages after them (\<^verbatim>\<open>$match\<close>, \<^verbatim>\<open>$sort\<close>) and the projection to
  \<^verbatim>\<open>WorkOrderWithDetails\<close> copy the two flags as they are.
\<close>

definition turbo_warnings :: "database \<Rightarrow> WorkOrder \<Rightarrow> TurboNote list" where
  "turbo_warnings db wo = filter (\<lambda>n. tn_turbo_code n = turbo_code wo) (turbo_notes db)"

definition car_warnings :: "database \<Rightarrow> WorkOrder \<Rightarrow> CarNote list" where
  "car_warnings db wo =
     filter (\<lambda>n. cn_car_make n = car_make wo \<and> cn_car_model n = car_model wo) (car_notes db)"

definition has_turbo_warning :: "database \<Rightarrow> WorkOrder \<Rightarrow> bool" where
  "has_turbo_warning db wo \<longleftrightarrow> length (turbo_warnings db wo) > 0"

definition has_car_warning :: "database \<Rightarrow> WorkOrder \<Rightarrow> bool" where
  "has_car_warning db wo \<longleftrightarrow> length (car_warnings db wo) > 0"

section \<open>Example data\<close>

text \<open>A clock, a client and a work order used to instantiate the theorems below.\<close>

definition ex_clock :: "nat \<Rightarrow> datetime" where
  "ex_clock k = 1000 + int k"

definition ex_client :: Client where
  "ex_client = \<lparr>cl_id = ''c1'', cl_name = ''Kovacs'', cl_phone = ''0740'', cl_email = None,
     cl_address = None, cl_company_name = None, cl_tax_number = None,
     cl_notes = None, cl_created_at = 1, cl_updated_at = 1\<rparr>"

definition ex_order :: WorkOrder where
  "ex_order = \<lparr>wo_id = ''w1'', work_number = ''00001'', work_sequence = 1, client_id = ''c1'',
     vehicle_id = None, turbo_code = ''5490-970-0071'', car_make = ''BMW'', car_model = ''X5'',
     car_year = None, engine_code = None, general_notes = ''none'', received_date = 7,
     parts = [], processes = [], status_passed = False, status_refused = False,
     cleaning_price = 170, reconditioning_price = 170, turbo_price = 240, status = DRAFT,
     is_finalized = False, quote_sent = False, quote_accepted = False,
     estimated_completion = None, documents_generated = [], finalized = False,
     client_notified = False, created_at = 10, updated_at = 11, finalized_at = None\<rparr>"

definition ex_db :: database where
  "ex_db = \<lparr>clients = [ex_client], work_orders = [ex_order], turbo_notes = [], car_notes = [],
     inventory_items = [], inventory_movements = []\<rparr>"

definition ex_order_finalized :: WorkOrder where
  "ex_order_finalized = ex_order\<lparr>is_finalized := True, status := QUOTED\<rparr>"

definition ex_db_finalized :: database where
  "ex_db_finalized = ex_db\<lparr>work_orders := [ex_order_finalized]\<rparr>"

text \<open>\<^verbatim>\<open>WorkOrderUpdate()\<close>: a payload that supplies no field.\<close>

definition empty_update :: WorkOrderUpdate where
  "empty_update = \<lparr>u_work_sequence = None, u_turbo_code = None, u_car_make = None,
     u_car_model = None, u_car_year = None, u_engine_code = None, u_general_notes = None,
     u_parts = None, u_processes = None, u_status_passed = None, u_status_refused = None,
     u_cleaning_price = None, u_reconditioning_price = None, u_turbo_price = None,
     u_status = None, u_is_finalized = None, u_quote_sent = None, u_quote_accepted = None,
     u_estimated_completion = None, u_finalized = None, u_client_notified = None,
     u_finalized_at = None\<rparr>"

definition ex_create :: WorkOrderCreate where
  "ex_create = \<lparr>c_client_id = ''c1'', c_turbo_code = ''5490-970-0071'', c_car_make = ''BMW'',
     c_car_model = ''X5'', c_car_year = Some 2012, c_engine_code = None,
     c_general_notes = ''none''\<rparr>"

definition ex_create_unknown :: WorkOrderCreate where
  "ex_create_unknown = ex_create\<lparr>c_client_id := ''c9''\<rparr>"


definition ex_update_sequence :: WorkOrderUpdate where
  "ex_update_sequence = empty_update\<lparr>u_work_sequence := Some 7\<rparr>"

definition ex_update_finalize :: WorkOrderUpdate where
  "ex_update_finalize = empty_update\<lparr>u_is_finalized := Some True, u_finalized_at := Some 999\<rparr>"

definition ex_update_unfinalize :: WorkOrderUpdate where
  "ex_update_unfinalize = empty_update\<lparr>u_is_finalized := Some False\<rparr>"

text \<open>A run of movement requests, each with the identifier and the clock it is served
  with; a rejected request leaves the database as it was.\<close>

fun record_movements ::
  "(string \<times> (nat \<Rightarrow> datetime) \<times> InventoryMovementCreate) list \<Rightarrow> database \<Rightarrow> database" where
  "record_movements [] db = db"
| "record_movements ((uuid4, utcnow, movement) # rest) db =
     record_movements rest (fst (create_inventory_movement uuid4 utcnow movement db))"

definition ex_item :: InventoryItem where
  "ex_item = \<lparr>it_id = ''i1'', it_name = ''Geometria'', it_code = ''GEO-001'',
     it_category = ''turbo_parts'', current_stock = 5, min_stock = 1, max_stock = 1000,
     it_unit = ''db'', it_location = None, it_supplier = None, it_purchase_price = 12,
     it_notes = None, it_active = True, it_created_at = 3, it_updated_at = 3\<rparr>"

definition ex_db_inventory :: database where
  "ex_db_inventory = ex_db\<lparr>inventory_items := [ex_item]\<rparr>"

definition ex_movement_out :: InventoryMovementCreate where
  "ex_movement_out = \<lparr>r_item_id = ''i1'', r_movement_type = ''OUT'', r_quantity = 5,
     r_reason = ''usage'', r_reference = None, r_notes = None\<rparr>"

definition ex_movement_out_6 :: InventoryMovementCreate where
  "ex_movement_out_6 = ex_movement_out\<lparr>r_quantity := 6\<rparr>"

definition ex_movement_in :: InventoryMovementCreate where
  "ex_movement_in = ex_movement_out\<lparr>r_movement_type := ''IN'', r_quantity := 3\<rparr>"

definition ex_requests ::
  "(string \<times> (nat \<Rightarrow> datetime) \<times> InventoryMovementCreate) list" where
  "ex_requests = [(''m1'', ex_clock, ex_movement_out), (''m2'', ex_clock, ex_movement_out_6),
     (''m3'', ex_clock, ex_movement_in)]"

text \<open>Notes on the example order's turbo code and car that are not active.\<close>

definition ex_turbo_note :: TurboNote where
  "ex_turbo_note = \<lparr>tn_id = ''n1'', tn_turbo_code = ''5490-970-0071'', tn_note_type = WARNING,
     tn_title = ''actuator'', tn_description = ''check actuator'', tn_created_by = ''System'',
     tn_created_at = 2, tn_active = False\<rparr>"

definition ex_car_note :: CarNote where
  "ex_car_note = \<lparr>cn_id = ''n2'', cn_car_make = ''BMW'', cn_car_model = ''X5'',
     cn_engine_code = None, cn_note_type = INFO, cn_title = ''oil feed'',
     cn_description = ''replace oil feed pipe'', cn_created_by = ''System'',
     cn_created_at = 2, cn_active = False\<rparr>"

definition ex_db_notes :: database where
  "ex_db_notes = ex_db\<lparr>turbo_notes := [ex_turbo_note], car_notes := [ex_car_note]\<rparr>"

definition ex_db_99999 :: database where
  "ex_db_99999 =
     ex_db\<lparr>work_orders := [ex_order\<lparr>work_sequence := 99999, work_number := ''99999''\<rparr>]\<rparr>"

definition ex_order2 :: WorkOrder where
  "ex_order2 = ex_order\<lparr>wo_id := ''w2'', work_number := ''00002'', work_sequence := 2,
     created_at := 20, updated_at := 21\<rparr>"

definition ex_order3 :: WorkOrder where
  "ex_order3 = ex_order\<lparr>wo_id := ''w3'', work_number := ''00003'', work_sequence := 3,
     created_at := 30, updated_at := 31\<rparr>"

definition ex_db3 :: database where
  "ex_db3 = ex_db\<lparr>work_orders := [ex_order, ex_order2, ex_order3]\<rparr>"

section \<open>Properties\<close>

subsection \<open>Collection primitives\<close>

lemma find_one_SomeD: "find_one q xs = Some x \<Longrightarrow> q x \<and> x \<in> set xs"
  by (induction xs) (auto simp: find_one_def split: if_splits)

lemma find_one_update_one:
  "find_one q xs = Some x \<Longrightarrow> q (f x) \<Longrightarrow> find_one q (update_one q f xs) = Some (f x)"
  by (induction xs) (simp_all add: find_one_def split: if_splits)

subsection \<open>Deleting a finalized work order\<close>

text \<open>
  C3. When the work order found for the identifier has \<open>is_finalized\<close> set,
  \<open>delete_work_order\<close> raises \<open>HTTPException 400\<close> and the database it leaves is the
  database it was given: no record is removed and no renumbering pass runs.
\<close>

theorem delete_finalized_conflict:
  assumes "find_one (\<lambda>d. wo_id d = work_order_id) (work_orders db) = Some work_order"
    and "is_finalized work_order"
  shows "delete_work_order utcnow work_order_id db
           = (db, Inl (HTTPException 400 Finalized_not_deletable))"
  using assms by (simp add: delete_work_order_def)

theorem delete_finalized_conflict_witness:
  "find_one (\<lambda>d. wo_id d = ''w1'') (work_orders ex_db_finalized) = Some ex_order_finalized
   \<and> is_finalized ex_order_finalized
   \<and> delete_work_order ex_clock ''w1'' ex_db_finalized
       = (ex_db_finalized, Inl (HTTPException 400 Finalized_not_deletable))"
proof -
  have h: "find_one (\<lambda>d. wo_id d = ''w1'') (work_orders ex_db_finalized)
             = Some ex_order_finalized"
    by (simp add: find_one_def ex_db_finalized_def ex_db_def ex_order_finalized_def ex_order_def)
  have f: "is_finalized ex_order_finalized"
    by (simp add: ex_order_finalized_def)
  from h f delete_finalized_conflict [OF h f, of ex_clock] show ?thesis by simp
qed

subsection \<open>The effect of \<^verbatim>\<open>$set\<close> with \<open>update_data\<close>, field by field\<close>

lemma set_field_other:
  "(\<And>v e. sel (upd v e) = sel e) \<Longrightarrow> sel (set_field upd x d) = sel d"
  by (cases x) (simp_all add: set_field_def)

lemma set_field_same:
  "work_sequence (set_field (\<lambda>v d. d\<lparr>work_sequence := v\<rparr>) x0 (d::WorkOrder))
     = (case x0 of None \<Rightarrow> work_sequence d | Some v \<Rightarrow> v)"
  "turbo_code (set_field (\<lambda>v d. d\<lparr>turbo_code := v\<rparr>) x1 (d::WorkOrder))
     = (case x1 of None \<Rightarrow> turbo_code d | Some v \<Rightarrow> v)"
  "car_make (set_field (\<lambda>v d. d\<lparr>car_make := v\<rparr>) x2 (d::WorkOrder))
     = (case x2 of None \<Rightarrow> car_make d | Some v \<Rightarrow> v)"
  "car_model (set_field (\<lambda>v d. d\<lparr>car_model := v\<rparr>) x3 (d::WorkOrder))
     = (case x3 of None \<Rightarrow> car_model d | Some v \<Rightarrow> v)"
  "car_year (set_field (\<lambda>v d. d\<lparr>car_year := Some v\<rparr>) x4 (d::WorkOrder))
     = (case x4 of None \<Rightarrow> car_year d | Some v \<Rightarrow> Some v)"
  "engine_code (set_field (\<lambda>v d. d\<lparr>engine_code := Some v\<rparr>) x5 (d::WorkOrder))
     = (case x5 of None \<Rightarrow> engine_code d | Some v \<Rightarrow> Some v)"
  "general_notes (set_field (\<lambda>v d. d\<lparr>general_notes := v\<rparr>) x6 (d::WorkOrder))
     = (case x6 of None \<Rightarrow> general_notes d | Some v \<Rightarrow> v)"
  "parts (set_field (\<lambda>v d. d\<lparr>parts := v\<rparr>) x7 (d::WorkOrder))
     = (case x7 of None \<Rightarrow> parts d | Some v \<Rightarrow> v)"
  "processes (set_field (\<lambda>v d. d\<lparr>processes := v\<rparr>) x8 (d::WorkOrder))
     = (case x8 of None \<Rightarrow> processes d | Some v \<Rightarrow> v)"
  "status_passed (set_field (\<lambda>v d. d\<lparr>status_passed := v\<rparr>) x9 (d::WorkOrder))
     = (case x9 of None \<Rightarrow> status_passed d | Some v \<Rightarrow> v)"
  "status_refused (set_field (\<lambda>v d. d\<lparr>status_refused := v\<rparr>) x10 (d::WorkOrder))
     = (case x10 of None \<Rightarrow> status_refused d | Some v \<Rightarrow> v)"
  "cleaning_price (set_field (\<lambda>v d. d\<lparr>cleaning_price := v\<rparr>) x11 (d::WorkOrder))
     = (case x11 of None \<Rightarrow> cleaning_price d | Some v \<Rightarrow> v)"
  "reconditioning_price (set_field (\<lambda>v d. d\<lparr>reconditioning_price := v\<rparr>) x12 (d::WorkOrder))
     = (case x12 of None \<Rightarrow> reconditioning_price d | Some v \<Rightarrow> v)"
  "turbo_price (set_field (\<lambda>v d. d\<lparr>turbo_price := v\<rparr>) x13 (d::WorkOrder))
     = (case x13 of None \<Rightarrow> turbo_price d | Some v \<Rightarrow> v)"
  "status (set_field (\<lambda>v d. d\<lparr>status := v\<rparr>) x14 (d::WorkOrder))
     = (case x14 of None \<Rightarrow> status d | Some v \<Rightarrow> v)"
  "is_finalized (set_field (\<lambda>v d. d\<lparr>is_finalized := v\<rparr>) x15 (d::WorkOrder))
     = (case x15 of None \<Rightarrow> is_finalized d | Some v \<Rightarrow> v)"
  "quote_sent (set_field (\<lambda>v d. d\<lparr>quote_sent := v\<rparr>) x16 (d::WorkOrder))
     = (case x16 of None \<Rightarrow> quote_sent d | Some v \<Rightarrow> v)"
  "quote_accepted (set_field (\<lambda>v d. d\<lparr>quote_accepted := v\<rparr>) x17 (d::WorkOrder))
     = (case x17 of None \<Rightarrow> quote_accepted d | Some v \<Rightarrow> v)"
  "estimated_completion (set_field (\<lambda>v d. d\<lparr>estimated_completion := Some v\<rparr>) x18 (d::WorkOrder))
     = (case x18 of None \<Rightarrow> estimated_completion d | Some v \<Rightarrow> Some v)"
  "finalized (set_field (\<lambda>v d. d\<lparr>finalized := v\<rparr>) x19 (d::WorkOrder))
     = (case x19 of None \<Rightarrow> finalized d | Some v \<Rightarrow> v)"
  "client_notified (set_field (\<lambda>v d. d\<lparr>client_notified := v\<rparr>) x20 (d::WorkOrder))
     = (case x20 of None \<Rightarrow> client_notified d | Some v \<Rightarrow> v)"
  "finalized_at (set_field (\<lambda>v d. d\<lparr>finalized_at := Some v\<rparr>) x21 (d::WorkOrder))
     = (case x21 of None \<Rightarrow> finalized_at d | Some v \<Rightarrow> Some v)"
  by (simp_all add: set_field_def split: option.split)
















lemma set_update_data_is_finalized:
  "is_finalized (set_update_data u now d)
     = (case u_is_finalized u of None \<Rightarrow> is_finalized d | Some v \<Rightarrow> v)"
  by (simp add: set_update_data_def set_field_same set_field_other [of is_finalized] cong: option.case_cong)






lemma set_update_data_finalized_at:
  "finalized_at (set_update_data u now d)
     = (case u_finalized_at u of None \<Rightarrow> finalized_at d | Some v \<Rightarrow> Some v)"
  by (simp add: set_update_data_def set_field_same set_field_other [of finalized_at] cong: option.case_cong)

lemma set_update_data_wo_id:
  "wo_id (set_update_data u now d) = wo_id d"
  by (simp add: set_update_data_def set_field_other [of wo_id])








lemma find_one_None_iff: "find_one q xs = None \<longleftrightarrow> (\<forall>x\<in>set xs. \<not> q x)"
  by (auto simp: find_one_def find_None_iff)

lemma delete_one_found: "find_one q xs = Some x \<Longrightarrow> snd (delete_one q xs) = 1"
  by (induction xs) (auto simp: find_one_def split: if_splits prod.splits)

subsection \<open>Finalizing a work order\<close>

text \<open>
  C5. For the work order found for the identifier: if it is already finalized,
  \<open>finalize_work_order\<close> raises \<open>HTTPException 400\<close> and leaves the database as it
  was; otherwise it answers with the stored record, which is the found record with
  \<open>is_finalized\<close> set, \<open>finalized_at\<close> stamped with the clock, and \<open>status\<close> set to
  \<open>RECEIVED\<close> whatever the status was.
\<close>

theorem finalize_work_order_spec:
  assumes "find_one (\<lambda>d. wo_id d = work_order_id) (work_orders db) = Some work_order"
  shows "(is_finalized work_order \<longrightarrow>
            finalize_work_order utcnow work_order_id db
              = (db, Inl (HTTPException 400 Already_finalized)))
       \<and> (\<not> is_finalized work_order \<longrightarrow>
            (\<exists>db' updated.
               finalize_work_order utcnow work_order_id db = (db', Inr updated)
               \<and> find_one (\<lambda>d. wo_id d = work_order_id) (work_orders db') = Some updated
               \<and> updated = work_order\<lparr>is_finalized := True, finalized_at := Some (utcnow 0),
                                       updated_at := utcnow 1, status := RECEIVED\<rparr>
               \<and> is_finalized updated
               \<and> finalized_at updated = Some (utcnow 0)
               \<and> status updated = RECEIVED))"
proof -
  have "wo_id work_order = work_order_id"
    using find_one_SomeD [OF assms] by simp
  then show ?thesis
    using assms
      find_one_update_one [OF assms,
        of "\<lambda>d. d\<lparr>is_finalized := True, finalized_at := Some (utcnow 0),
                  updated_at := utcnow 1, status := RECEIVED\<rparr>"]
    by (simp add: finalize_work_order_def Let_def)
qed

theorem finalize_work_order_spec_witness:
  "finalize_work_order ex_clock ''w1'' ex_db_finalized
     = (ex_db_finalized, Inl (HTTPException 400 Already_finalized))
   \<and> (\<exists>db' updated.
         finalize_work_order ex_clock ''w1'' ex_db = (db', Inr updated)
         \<and> find_one (\<lambda>d. wo_id d = ''w1'') (work_orders db') = Some updated
         \<and> is_finalized updated \<and> finalized_at updated = Some 1000
         \<and> status updated = RECEIVED)"
proof -
  have h1: "find_one (\<lambda>d. wo_id d = ''w1'') (work_orders ex_db_finalized)
              = Some ex_order_finalized"
    by (simp add: find_one_def ex_db_finalized_def ex_db_def ex_order_finalized_def ex_order_def)
  have h2: "find_one (\<lambda>d. wo_id d = ''w1'') (work_orders ex_db) = Some ex_order"
    by (simp add: find_one_def ex_db_def ex_order_def)
  have f1: "is_finalized ex_order_finalized"
    by (simp add: ex_order_finalized_def)
  have f2: "\<not> is_finalized ex_order"
    by (simp add: ex_order_def)
  from finalize_work_order_spec [OF h1, of ex_clock] f1
  have a: "finalize_work_order ex_clock ''w1'' ex_db_finalized
             = (ex_db_finalized, Inl (HTTPException 400 Already_finalized))"
    by blast
  from finalize_work_order_spec [OF h2, of ex_clock] f2
  have b: "\<exists>db' updated.
         finalize_work_order ex_clock ''w1'' ex_db = (db', Inr updated)
         \<and> find_one (\<lambda>d. wo_id d = ''w1'') (work_orders db') = Some updated
         \<and> is_finalized updated \<and> finalized_at updated = Some (ex_clock 0)
         \<and> status updated = RECEIVED"
    by blast
  from a b show ?thesis by (simp add: ex_clock_def)
qed

subsection \<open>Creating a work order for an unknown client\<close>

text \<open>
  C7 (as amended). When no client document carries the requested client identifier,
  \<open>create_work_order\<close> raises \<open>HTTPException\<close> with status code 400 and the detail
  "client not found", and the database it leaves is the one it was given: no work
  order is inserted.
\<close>

theorem create_work_order_unknown_client:
  assumes "c_client_id work_order \<notin> cl_id ` set (clients db)"
  shows "create_work_order uuid4 today utcnow work_order db
           = (db, Inl (HTTPException 400 Client_not_found))"
proof -
  have "find_one (\<lambda>c. cl_id c = c_client_id work_order) (clients db) = None"
    using assms by (force simp: find_one_None_iff)
  then show ?thesis
    by (simp add: create_work_order_def)
qed

theorem create_work_order_unknown_client_witness:
  "c_client_id ex_create_unknown \<notin> cl_id ` set (clients ex_db)
   \<and> create_work_order ''w2'' 7 ex_clock ex_create_unknown ex_db
       = (ex_db, Inl (HTTPException 400 Client_not_found))"
proof -
  have h: "c_client_id ex_create_unknown \<notin> cl_id ` set (clients ex_db)"
    by (simp add: ex_create_unknown_def ex_create_def ex_db_def ex_client_def)
  from h create_work_order_unknown_client [OF h, of "''w2''" 7 ex_clock]
  show ?thesis by simp
qed

text \<open>
  The status code raised for an unknown client is 400; it is not the 404 that the
  not-found paths of the other endpoints raise.
\<close>

theorem create_work_order_unknown_client_status:
  "snd (create_work_order ''w2'' 7 ex_clock ex_create_unknown ex_db)
     = Inl (HTTPException 400 Client_not_found)
   \<and> snd (create_work_order ''w2'' 7 ex_clock ex_create_unknown ex_db)
     \<noteq> Inl (HTTPException 404 Client_not_found)"
  by (simp add: create_work_order_def find_one_def ex_create_unknown_def ex_create_def
      ex_db_def ex_client_def)

subsection \<open>What the driver refuses\<close>

lemma first_error_None_iff: "first_error es = None \<longleftrightarrow> list_all (\<lambda>e. e = None) es"
  by (induction es rule: first_error.induct) simp_all

lemma first_error_append:
  "first_error (es @ fs) = (case first_error es of None \<Rightarrow> first_error fs | Some e \<Rightarrow> Some e)"
  by (induction es rule: first_error.induct) simp_all

lemma first_error_filter:
  "first_error (map (\<lambda>(k, v). bson_error v) (filter (\<lambda>(k, v). v \<noteq> PyNone) kvs))
   = first_error (map (\<lambda>(k, v). bson_error v) kvs)"
proof (induction kvs)
  case Nil
  then show ?case by simp
next
  case (Cons kv kvs)
  obtain k v where kv: "kv = (k, v)" by (cases kv)
  show ?case
  proof (cases "v = PyNone")
    case True
    with Cons.IH show ?thesis by (simp add: kv)
  next
    case False
    with Cons.IH show ?thesis by (cases "bson_error v") (simp_all add: kv)
  qed
qed

lemma bson_error_optional:
  "bson_error (py_optional PyStr s) = None"
  "bson_error (py_optional PyBool b) = None"
  "bson_error (py_optional PyFloat r) = None"
  "bson_error (py_optional PyDatetime t) = None"
  "bson_error (py_optional (\<lambda>s. PyStr (WorkStatus_value s)) st) = None"
  "bson_error (py_optional PyInt i)
     = (if pred_option int64 i then None else Some OverflowError)"
  "bson_error (py_optional PyDate d) = (if d = None then None else Some InvalidDocument)"
  by (simp_all add: py_optional_def split: option.splits)

lemma bson_error_parts: "bson_error (py_parts ps) = None"
proof -
  have "list_all (\<lambda>e. e = None) (map bson_error (map (\<lambda>p. PyDict (WorkOrderPart_dict p)) ps))"
    by (induction ps) (simp_all add: WorkOrderPart_dict_def)
  then show ?thesis
    by (simp only: py_parts_def bson_error.simps first_error_None_iff)
qed

lemma bson_error_processes:
  "bson_error (py_processes ps)
     = (if list_all (\<lambda>p. int64 (estimated_time p)) ps then None else Some OverflowError)"
proof (induction ps)
  case Nil
  then show ?case by (simp add: py_processes_def)
next
  case (Cons p ps)
  have "bson_error (PyDict (WorkOrderProcess_dict p))
          = (if int64 (estimated_time p) then None else Some OverflowError)"
    by (simp add: WorkOrderProcess_dict_def)
  with Cons.IH show ?case
    by (simp add: py_processes_def)
qed

lemma bson_error_optional_parts: "bson_error (py_optional py_parts ps) = None"
  by (simp add: py_optional_def bson_error_parts split: option.splits)

lemma bson_error_optional_processes:
  "bson_error (py_optional py_processes ps)
     = (if pred_option (list_all (\<lambda>p. int64 (estimated_time p))) ps then None
        else Some OverflowError)"
  by (simp add: py_optional_def bson_error_processes split: option.splits)

lemma bson_error_update_data:
  "bson_error (PyDict (update_data u @ [(''updated_at'', PyDatetime now)]))
     = (if pred_option int64 (u_work_sequence u) \<and> pred_option int64 (u_car_year u)
           \<and> pred_option (list_all (\<lambda>p. int64 (estimated_time p))) (u_processes u)
        then (if u_estimated_completion u = None then None else Some InvalidDocument)
        else Some OverflowError)"
proof -
  have "bson_error (PyDict (update_data u @ [(''updated_at'', PyDatetime now)]))
          = first_error (map (\<lambda>(k, v). bson_error v) (WorkOrderUpdate_dict u))"
    by (simp add: update_data_def first_error_append first_error_filter
        split: option.splits)
  also have "\<dots> = (if pred_option int64 (u_work_sequence u) \<and> pred_option int64 (u_car_year u)
           \<and> pred_option (list_all (\<lambda>p. int64 (estimated_time p))) (u_processes u)
        then (if u_estimated_completion u = None then None else Some InvalidDocument)
        else Some OverflowError)"
    by (simp add: WorkOrderUpdate_dict_def bson_error_optional bson_error_optional_parts
        bson_error_optional_processes)
  finally show ?thesis .
qed

text \<open>An \<open>update_data\<close> that encodes holds no \<open>estimated_completion\<close>.\<close>

lemma update_data_encodes:
  assumes "bson_error (PyDict (update_data u @ [(''updated_at'', PyDatetime now)])) = None"
  shows "u_estimated_completion u = None"
  using assms by (simp add: bson_error_update_data del: bson_error.simps split: if_splits)

lemma optional_PyNone:
  "(\<And>x. py x \<noteq> PyNone) \<Longrightarrow> py_optional py v = PyNone \<longleftrightarrow> v = None"
  by (simp add: py_optional_def split: option.splits)

lemma update_data_Nil_iff:
  "update_data u = [] \<longleftrightarrow>
     u_work_sequence u = None \<and> u_turbo_code u = None \<and> u_car_make u = None
     \<and> u_car_model u = None \<and> u_car_year u = None \<and> u_engine_code u = None
     \<and> u_general_notes u = None \<and> u_parts u = None \<and> u_processes u = None
     \<and> u_status_passed u = None \<and> u_status_refused u = None \<and> u_cleaning_price u = None
     \<and> u_reconditioning_price u = None \<and> u_turbo_price u = None \<and> u_status u = None
     \<and> u_is_finalized u = None \<and> u_quote_sent u = None \<and> u_quote_accepted u = None
     \<and> u_estimated_completion u = None \<and> u_finalized u = None
     \<and> u_client_notified u = None \<and> u_finalized_at u = None"
  by (simp add: update_data_def filter_empty_conv WorkOrderUpdate_dict_def optional_PyNone
      py_parts_def py_processes_def)

subsection \<open>Partial update of a work order\<close>


lemma update_work_order_result:
  assumes "find_one (\<lambda>d. wo_id d = work_order_id) (work_orders db) = Some existing"
    and "bson_error (PyDict (update_data u @ [(''updated_at'', PyDatetime (utcnow 0))])) = None"
  shows "update_work_order utcnow work_order_id u db
           = (if update_data u = [] then db
              else db\<lparr>work_orders := update_one (\<lambda>d. wo_id d = work_order_id)
                       (set_update_data u (utcnow 0)) (work_orders db)\<rparr>,
              Inr (if update_data u = [] then existing
                   else set_update_data u (utcnow 0) existing))"
    and "find_one (\<lambda>d. wo_id d = work_order_id)
           (work_orders (fst (update_work_order utcnow work_order_id u db)))
           = Some (if update_data u = [] then existing
                   else set_update_data u (utcnow 0) existing)"
proof -
  have "wo_id existing = work_order_id"
    using find_one_SomeD [OF assms(1)] by simp
  then have "wo_id (set_update_data u (utcnow 0) existing) = work_order_id"
    by (simp add: set_update_data_wo_id)
  from find_one_update_one [OF assms(1), of "set_update_data u (utcnow 0)", OF this]
  have upd: "find_one (\<lambda>d. wo_id d = work_order_id)
               (update_one (\<lambda>d. wo_id d = work_order_id)
                  (set_update_data u (utcnow 0)) (work_orders db))
             = Some (set_update_data u (utcnow 0) existing)" .
  show res: "update_work_order utcnow work_order_id u db
           = (if update_data u = [] then db
              else db\<lparr>work_orders := update_one (\<lambda>d. wo_id d = work_order_id)
                       (set_update_data u (utcnow 0)) (work_orders db)\<rparr>,
              Inr (if update_data u = [] then existing
                   else set_update_data u (utcnow 0) existing))"
    using assms upd by (simp add: update_work_order_def)
  show "find_one (\<lambda>d. wo_id d = work_order_id)
           (work_orders (fst (update_work_order utcnow work_order_id u db)))
           = Some (if update_data u = [] then existing
                   else set_update_data u (utcnow 0) existing)"
    using assms upd by (simp add: res)
qed

lemma update_work_order_raises:
  assumes "find_one (\<lambda>d. wo_id d = work_order_id) (work_orders db) = Some existing"
    and "bson_error (PyDict (update_data u @ [(''updated_at'', PyDatetime (utcnow 0))])) = Some e"
    and "update_data u \<noteq> []"
  shows "update_work_order utcnow work_order_id u db = (db, Inl e)"
  using assms by (simp add: update_work_order_def)

text \<open>A payload that supplies \<open>estimated_completion\<close> (and integers of at most 8 bytes)
  ends in \<open>InvalidDocument\<close>; no field of the payload is applied.\<close>

lemma update_work_order_estimated_completion:
  assumes "find_one (\<lambda>d. wo_id d = work_order_id) (work_orders db) = Some existing"
    and "u_estimated_completion u = Some day"
    and "pred_option int64 (u_work_sequence u)"
    and "pred_option int64 (u_car_year u)"
    and "pred_option (list_all (\<lambda>p. int64 (estimated_time p))) (u_processes u)"
  shows "update_work_order utcnow work_order_id u db = (db, Inl InvalidDocument)"
proof -
  have "update_data u \<noteq> []"
    using assms(2) by (simp add: update_data_Nil_iff)
  moreover have "bson_error (PyDict (update_data u @ [(''updated_at'', PyDatetime (utcnow 0))]))
                   = Some InvalidDocument"
    using assms(2-5) by (simp add: bson_error_update_data del: bson_error.simps)
  ultimately show ?thesis
    using assms(1) by (simp add: update_work_order_raises)
qed







subsection \<open>Setting the finalized flag through the partial update\<close>

text \<open>
  C9. When the payload of \<open>update_work_order\<close> supplies \<open>is_finalized = b\<close> (and the
  driver encodes the payload: it does not supply \<open>estimated_completion\<close>, and its
  integers fit in 8 bytes), the stored and returned record has \<open>is_finalized = b\<close>
  whatever the found record's flag and status were (and \<open>finalized_at\<close> is the payload's
  value when one is supplied); a \<open>delete_work_order\<close> that follows is refused with
  \<open>HTTPException 400\<close> when \<open>b\<close> is true and goes through when \<open>b\<close> is false.
\<close>

theorem update_work_order_sets_is_finalized:
  assumes "find_one (\<lambda>d. wo_id d = work_order_id) (work_orders db) = Some existing"
    and "u_is_finalized u = Some b"
    and "u_estimated_completion u = None"
    and "pred_option int64 (u_work_sequence u)"
    and "pred_option int64 (u_car_year u)"
    and "pred_option (list_all (\<lambda>p. int64 (estimated_time p))) (u_processes u)"
  shows "\<exists>db' updated.
           update_work_order utcnow work_order_id u db = (db', Inr updated)
         \<and> find_one (\<lambda>d. wo_id d = work_order_id) (work_orders db') = Some updated
         \<and> is_finalized updated = b
         \<and> finalized_at updated
             = (case u_finalized_at u of None \<Rightarrow> finalized_at existing | Some t \<Rightarrow> Some t)
         \<and> (b \<longrightarrow> delete_work_order utcnow' work_order_id db'
                     = (db', Inl (HTTPException 400 Finalized_not_deletable)))
         \<and> (\<not> b \<longrightarrow> snd (delete_work_order utcnow' work_order_id db') = Inr ())"
proof -
  have ne: "update_data u \<noteq> []"
    using assms(2) by (simp add: update_data_Nil_iff)
  have enc:
    "bson_error (PyDict (update_data u @ [(''updated_at'', PyDatetime (utcnow 0))])) = None"
    using assms(3-6) by (simp add: bson_error_update_data del: bson_error.simps)
  let ?updated = "set_update_data u (utcnow 0) existing"
  let ?db' = "fst (update_work_order utcnow work_order_id u db)"
  note r = update_work_order_result [where utcnow = utcnow, OF assms(1) enc]
  have res: "update_work_order utcnow work_order_id u db = (?db', Inr ?updated)"
    using r(1) ne by simp
  have found: "find_one (\<lambda>d. wo_id d = work_order_id) (work_orders ?db') = Some ?updated"
    using r(2) ne by simp
  have fin: "is_finalized ?updated = b"
    using assms(2) by (simp add: set_update_data_is_finalized)
  have fat: "finalized_at ?updated
             = (case u_finalized_at u of None \<Rightarrow> finalized_at existing | Some t \<Rightarrow> Some t)"
    by (simp add: set_update_data_finalized_at)
  have del1: "b \<longrightarrow> delete_work_order utcnow' work_order_id ?db'
                     = (?db', Inl (HTTPException 400 Finalized_not_deletable))"
    using found fin by (simp add: delete_work_order_def)
  have del2: "\<not> b \<longrightarrow> snd (delete_work_order utcnow' work_order_id ?db') = Inr ()"
    using found fin delete_one_found [OF found]
    by (auto simp: delete_work_order_def Let_def split: prod.splits)
  from res found fin fat del1 del2 show ?thesis
    by blast
qed

theorem update_work_order_sets_is_finalized_witness:
  "(\<exists>db' updated.
      update_work_order ex_clock ''w1'' ex_update_finalize ex_db = (db', Inr updated)
      \<and> \<not> is_finalized ex_order \<and> is_finalized updated \<and> finalized_at updated = Some 999
      \<and> delete_work_order ex_clock ''w1'' db'
          = (db', Inl (HTTPException 400 Finalized_not_deletable)))
   \<and> (\<exists>db' updated.
      update_work_order ex_clock ''w1'' ex_update_unfinalize ex_db_finalized = (db', Inr updated)
      \<and> is_finalized ex_order_finalized \<and> \<not> is_finalized updated
      \<and> snd (delete_work_order ex_clock ''w1'' db') = Inr ())"
proof -
  have h1: "find_one (\<lambda>d. wo_id d = ''w1'') (work_orders ex_db) = Some ex_order"
    by (simp add: find_one_def ex_db_def ex_order_def)
  have u1: "u_is_finalized ex_update_finalize = Some True"
    and t1: "u_finalized_at ex_update_finalize = Some 999"
    and n1: "u_estimated_completion ex_update_finalize = None"
      "pred_option int64 (u_work_sequence ex_update_finalize)"
      "pred_option int64 (u_car_year ex_update_finalize)"
      "pred_option (list_all (\<lambda>p. int64 (estimated_time p))) (u_processes ex_update_finalize)"
    by (simp_all add: ex_update_finalize_def empty_update_def)
  have h2: "find_one (\<lambda>d. wo_id d = ''w1'') (work_orders ex_db_finalized)
              = Some ex_order_finalized"
    by (simp add: find_one_def ex_db_finalized_def ex_db_def ex_order_finalized_def ex_order_def)
  have u2: "u_is_finalized ex_update_unfinalize = Some False"
    and n2: "u_estimated_completion ex_update_unfinalize = None"
      "pred_option int64 (u_work_sequence ex_update_unfinalize)"
      "pred_option int64 (u_car_year ex_update_unfinalize)"
      "pred_option (list_all (\<lambda>p. int64 (estimated_time p))) (u_processes ex_update_unfinalize)"
    by (simp_all add: ex_update_unfinalize_def empty_update_def)
  have f: "\<not> is_finalized ex_order" "is_finalized ex_order_finalized"
    by (simp_all add: ex_order_finalized_def ex_order_def)
  from update_work_order_sets_is_finalized [OF h1 u1 n1, of ex_clock ex_clock] t1 f
  have a: "\<exists>db' updated.
      update_work_order ex_clock ''w1'' ex_update_finalize ex_db = (db', Inr updated)
      \<and> \<not> is_finalized ex_order \<and> is_finalized updated \<and> finalized_at updated = Some 999
      \<and> delete_work_order ex_clock ''w1'' db'
          = (db', Inl (HTTPException 400 Finalized_not_deletable))"
    by auto
  from update_work_order_sets_is_finalized [OF h2 u2 n2, of ex_clock ex_clock] f
  have b: "\<exists>db' updated.
      update_work_order ex_clock ''w1'' ex_update_unfinalize ex_db_finalized = (db', Inr updated)
      \<and> is_finalized ex_order_finalized \<and> \<not> is_finalized updated
      \<and> snd (delete_work_order ex_clock ''w1'' db') = Inr ()"
    by auto
  from a b show ?thesis by blast
qed

subsection \<open>Inventory movements\<close>

lemma set_update_one:
  "y \<in> set (update_one q f xs) \<Longrightarrow> y \<in> set xs \<or> (\<exists>x\<in>set xs. q x \<and> y = f x)"
  by (induction xs) (auto split: if_splits)

lemma create_inventory_movement_accepted:
  assumes "find_one (\<lambda>i. it_id i = r_item_id m) (inventory_items db) = Some item"
    and "0 \<le> current_stock item + d"
    and "d = (if r_movement_type m = ''OUT'' \<and> 0 < r_quantity m then - r_quantity m
              else r_quantity m)"
  shows "create_inventory_movement uuid4 utcnow m db
           = (db\<lparr>inventory_movements :=
                   inventory_movements db @
                     [\<lparr>mv_id = uuid4, item_id = r_item_id m, movement_type = r_movement_type m,
                       quantity = d, reason = r_reason m, reference = r_reference m,
                       mv_notes = r_notes m, created_by = ''System'', mv_created_at = utcnow 0,
                       stock_before = current_stock item,
                       stock_after = current_stock item + d\<rparr>],
                 inventory_items :=
                   update_one (\<lambda>i. it_id i = r_item_id m)
                     (\<lambda>i. i\<lparr>current_stock := current_stock item + d,
                             it_updated_at := utcnow 1\<rparr>)
                     (inventory_items db)\<rparr>,
              Inr \<lparr>mv_id = uuid4, item_id = r_item_id m, movement_type = r_movement_type m,
                   quantity = d, reason = r_reason m, reference = r_reference m,
                   mv_notes = r_notes m, created_by = ''System'', mv_created_at = utcnow 0,
                   stock_before = current_stock item,
                   stock_after = current_stock item + d\<rparr>)"
  using assms by (auto simp: create_inventory_movement_def Let_def insert_one_def split: if_splits)

lemma create_inventory_movement_rejected:
  assumes "find_one (\<lambda>i. it_id i = r_item_id m) (inventory_items db) = Some item"
    and "current_stock item + d < 0"
    and "d = (if r_movement_type m = ''OUT'' \<and> 0 < r_quantity m then - r_quantity m
              else r_quantity m)"
  shows "create_inventory_movement uuid4 utcnow m db
           = (db, Inl (HTTPException 400 (Insufficient_stock (current_stock item) \<bar>d\<bar>)))"
  using assms by (auto simp: create_inventory_movement_def Let_def split: if_splits)

lemma create_inventory_movement_missing:
  assumes "find_one (\<lambda>i. it_id i = r_item_id m) (inventory_items db) = None"
  shows "create_inventory_movement uuid4 utcnow m db
           = (db, Inl (HTTPException 404 Item_not_found))"
  using assms by (simp add: create_inventory_movement_def)

lemma create_inventory_movement_nonneg:
  assumes "\<forall>i\<in>set (inventory_items db). 0 \<le> current_stock i"
  shows "\<forall>i\<in>set (inventory_items (fst (create_inventory_movement uuid4 utcnow m db))).
           0 \<le> current_stock i"
proof (cases "find_one (\<lambda>i. it_id i = r_item_id m) (inventory_items db)")
  case None
  then show ?thesis
    using assms by (simp add: create_inventory_movement_missing)
next
  case (Some item)
  define d where "d = (if r_movement_type m = ''OUT'' \<and> 0 < r_quantity m then - r_quantity m
                       else r_quantity m)"
  show ?thesis
  proof (cases "current_stock item + d < 0")
    case True
    from create_inventory_movement_rejected [OF Some True d_def] assms
    show ?thesis by simp
  next
    case False
    then have ok: "0 \<le> current_stock item + d" by simp
    show ?thesis
    proof
      fix i
      assume "i \<in> set (inventory_items (fst (create_inventory_movement uuid4 utcnow m db)))"
      then have "i \<in> set (update_one (\<lambda>i. it_id i = r_item_id m)
                     (\<lambda>i. i\<lparr>current_stock := current_stock item + d,
                             it_updated_at := utcnow 1\<rparr>)
                     (inventory_items db))"
        by (simp add: create_inventory_movement_accepted [OF Some ok d_def])
      from set_update_one [OF this] assms ok show "0 \<le> current_stock i"
        by auto
    qed
  qed
qed

lemma record_movements_nonneg:
  "\<forall>i\<in>set (inventory_items db). 0 \<le> current_stock i
   \<Longrightarrow> \<forall>i\<in>set (inventory_items (record_movements reqs db)). 0 \<le> current_stock i"
proof (induction reqs arbitrary: db)
  case Nil
  then show ?case by simp
next
  case (Cons req reqs)
  obtain uuid4 utcnow m where req: "req = (uuid4, utcnow, m)"
    by (cases req) auto
  from Cons.IH [OF create_inventory_movement_nonneg [OF Cons.prems, of uuid4 utcnow m]]
  show ?case by (simp add: req)
qed

text \<open>
  C4. For an existing item, a request of kind \<open>OUT\<close> whose positive quantity exceeds the
  item's \<open>current_stock\<close> raises \<open>HTTPException 400\<close> (insufficient stock) and leaves
  the database as it was: no movement is appended and no stock changes. Every movement
  that is recorded leaves the item it names with a stock that is not negative, and a
  run of movement requests on a database whose stocks are not negative ends in a
  database whose stocks are not negative.
\<close>

theorem out_movement_exceeding_stock:
  "(find_one (\<lambda>i. it_id i = r_item_id m) (inventory_items db) = Some item
      \<and> r_movement_type m = ''OUT'' \<and> 0 < r_quantity m \<and> current_stock item < r_quantity m
    \<longrightarrow> create_inventory_movement uuid4 utcnow m db
          = (db, Inl (HTTPException 400
                        (Insufficient_stock (current_stock item) (r_quantity m)))))
   \<and> (find_one (\<lambda>i. it_id i = r_item_id m) (inventory_items db) = Some item
      \<and> create_inventory_movement uuid4 utcnow m db = (db', Inr mv)
    \<longrightarrow> (\<exists>item'. find_one (\<lambda>i. it_id i = r_item_id m) (inventory_items db') = Some item'
                  \<and> current_stock item' = stock_after mv \<and> 0 \<le> current_stock item'))
   \<and> ((\<forall>i\<in>set (inventory_items db). 0 \<le> current_stock i)
    \<longrightarrow> (\<forall>i\<in>set (inventory_items (record_movements reqs db)). 0 \<le> current_stock i))"
proof (intro conjI impI)
  assume a: "find_one (\<lambda>i. it_id i = r_item_id m) (inventory_items db) = Some item
      \<and> r_movement_type m = ''OUT'' \<and> 0 < r_quantity m \<and> current_stock item < r_quantity m"
  then have "current_stock item + (- r_quantity m) < 0"
    and "- r_quantity m = (if r_movement_type m = ''OUT'' \<and> 0 < r_quantity m
                            then - r_quantity m else r_quantity m)"
    by simp_all
  from create_inventory_movement_rejected [OF _ this, of db uuid4 utcnow] a
  show "create_inventory_movement uuid4 utcnow m db
          = (db, Inl (HTTPException 400
                        (Insufficient_stock (current_stock item) (r_quantity m))))"
    by simp
next
  assume b: "find_one (\<lambda>i. it_id i = r_item_id m) (inventory_items db) = Some item
      \<and> create_inventory_movement uuid4 utcnow m db = (db', Inr mv)"
  then have found: "find_one (\<lambda>i. it_id i = r_item_id m) (inventory_items db) = Some item"
    and res: "create_inventory_movement uuid4 utcnow m db = (db', Inr mv)"
    by simp_all
  define d where "d = (if r_movement_type m = ''OUT'' \<and> 0 < r_quantity m then - r_quantity m
                       else r_quantity m)"
  have ok: "0 \<le> current_stock item + d"
  proof (rule ccontr)
    assume "\<not> 0 \<le> current_stock item + d"
    then have "current_stock item + d < 0" by simp
    from create_inventory_movement_rejected [OF found this d_def, of uuid4 utcnow] res
    show False by simp
  qed
  have idi: "it_id item = r_item_id m"
    using find_one_SomeD [OF found] by simp
  let ?f = "\<lambda>i. i\<lparr>current_stock := current_stock item + d, it_updated_at := utcnow 1\<rparr>"
  have "it_id (?f item) = r_item_id m"
    using idi by simp
  from find_one_update_one [OF found, of ?f, OF this]
    create_inventory_movement_accepted [OF found ok d_def, of uuid4 utcnow] res ok
  show "\<exists>item'. find_one (\<lambda>i. it_id i = r_item_id m) (inventory_items db') = Some item'
                  \<and> current_stock item' = stock_after mv \<and> 0 \<le> current_stock item'"
    by auto
next
  assume "\<forall>i\<in>set (inventory_items db). 0 \<le> current_stock i"
  then show "\<forall>i\<in>set (inventory_items (record_movements reqs db)). 0 \<le> current_stock i"
    by (rule record_movements_nonneg)
qed

theorem out_movement_exceeding_stock_witness:
  "create_inventory_movement ''m2'' ex_clock ex_movement_out_6 ex_db_inventory
     = (ex_db_inventory, Inl (HTTPException 400 (Insufficient_stock 5 6)))
   \<and> (\<exists>item'. find_one (\<lambda>i. it_id i = ''i1'')
                  (inventory_items
                     (fst (create_inventory_movement ''m1'' ex_clock ex_movement_out
                             ex_db_inventory))) = Some item'
               \<and> current_stock item' = 0)
   \<and> map current_stock (inventory_items ex_db_inventory) = [5]
   \<and> list_all ((\<le>) 0)
         (map current_stock (inventory_items (record_movements ex_requests ex_db_inventory)))"
proof -
  have found6: "find_one (\<lambda>i. it_id i = r_item_id ex_movement_out_6)
                  (inventory_items ex_db_inventory) = Some ex_item"
    and found5: "find_one (\<lambda>i. it_id i = r_item_id ex_movement_out)
                  (inventory_items ex_db_inventory) = Some ex_item"
    by (simp_all add: find_one_def ex_db_inventory_def ex_item_def ex_movement_out_6_def
        ex_movement_out_def)
  have q6: "r_movement_type ex_movement_out_6 = ''OUT''" "0 < r_quantity ex_movement_out_6"
    "current_stock ex_item < r_quantity ex_movement_out_6" "r_quantity ex_movement_out_6 = 6"
    "current_stock ex_item = 5" "r_item_id ex_movement_out = ''i1''"
    by (simp_all add: ex_movement_out_6_def ex_movement_out_def ex_item_def)
  have nonneg: "\<forall>i\<in>set (inventory_items ex_db_inventory). 0 \<le> current_stock i"
    by (simp add: ex_db_inventory_def ex_item_def)
  let ?r = "create_inventory_movement ''m1'' ex_clock ex_movement_out ex_db_inventory"
  have d5: "0 \<le> current_stock ex_item + (- 5)"
    "- 5 = (if r_movement_type ex_movement_out = ''OUT'' \<and> 0 < r_quantity ex_movement_out
            then - r_quantity ex_movement_out else r_quantity ex_movement_out)"
    by (simp_all add: ex_movement_out_def ex_item_def)
  have "\<exists>mv. snd ?r = Inr mv \<and> stock_after mv = 0"
    by (simp add: create_inventory_movement_accepted [OF found5 d5] ex_item_def)
  then obtain mv where "snd ?r = Inr mv" and after: "stock_after mv = 0"
    by blast
  then have res: "?r = (fst ?r, Inr mv)"
    by (cases ?r) simp
  from out_movement_exceeding_stock
         [of ex_movement_out_6 ex_db_inventory ex_item "''m2''" ex_clock _ _ ex_requests]
       found6 q6(1-5) nonneg
  have a: "create_inventory_movement ''m2'' ex_clock ex_movement_out_6 ex_db_inventory
             = (ex_db_inventory, Inl (HTTPException 400 (Insufficient_stock 5 6)))"
    and c: "\<forall>i\<in>set (inventory_items (record_movements ex_requests ex_db_inventory)).
              0 \<le> current_stock i"
    by simp_all
  from out_movement_exceeding_stock
         [of ex_movement_out ex_db_inventory ex_item "''m1''" ex_clock "fst ?r" mv "[]"]
       found5 res after q6(6)
  have b: "\<exists>item'. find_one (\<lambda>i. it_id i = ''i1'')
                  (inventory_items
                     (fst (create_inventory_movement ''m1'' ex_clock ex_movement_out
                             ex_db_inventory))) = Some item'
               \<and> current_stock item' = 0"
    by auto
  have s: "map current_stock (inventory_items ex_db_inventory) = [5]"
    by (simp add: ex_db_inventory_def ex_item_def)
  from c have "list_all ((\<le>) 0)
         (map current_stock (inventory_items (record_movements ex_requests ex_db_inventory)))"
    by (simp add: list_all_iff)
  with a b s show ?thesis by blast
qed

text \<open>
  C10. For an existing item: a request of kind \<open>OUT\<close> with a positive quantity \<open>q\<close> not
  above the stock is accepted, and the movement stored and returned carries quantity
  \<open>- q\<close>, \<open>stock_before\<close> the item's stock and \<open>stock_after = stock_before - q\<close>; a
  request of kind \<open>IN\<close> with quantity \<open>q\<close> that does not take the stock below zero is
  accepted, and its movement carries quantity \<open>q\<close> and
  \<open>stock_after = stock_before + q\<close>. In both cases the movement is appended to the
  movements collection and the item's \<open>current_stock\<close> becomes that \<open>stock_after\<close>.
\<close>

theorem accepted_movement_record:
  assumes "find_one (\<lambda>i. it_id i = r_item_id m) (inventory_items db) = Some item"
  shows "(r_movement_type m = ''OUT'' \<and> 0 < r_quantity m \<and> r_quantity m \<le> current_stock item
          \<longrightarrow> (\<exists>db' mv.
                 create_inventory_movement uuid4 utcnow m db = (db', Inr mv)
               \<and> quantity mv = - r_quantity m
               \<and> stock_before mv = current_stock item
               \<and> stock_after mv = stock_before mv - r_quantity m
               \<and> inventory_movements db' = inventory_movements db @ [mv]
               \<and> find_one (\<lambda>i. it_id i = r_item_id m) (inventory_items db')
                   = Some (item\<lparr>current_stock := stock_after mv,
                                  it_updated_at := utcnow 1\<rparr>)))
       \<and> (r_movement_type m = ''IN'' \<and> 0 \<le> current_stock item + r_quantity m
          \<longrightarrow> (\<exists>db' mv.
                 create_inventory_movement uuid4 utcnow m db = (db', Inr mv)
               \<and> quantity mv = r_quantity m
               \<and> stock_before mv = current_stock item
               \<and> stock_after mv = stock_before mv + r_quantity m
               \<and> inventory_movements db' = inventory_movements db @ [mv]
               \<and> find_one (\<lambda>i. it_id i = r_item_id m) (inventory_items db')
                   = Some (item\<lparr>current_stock := stock_after mv,
                                  it_updated_at := utcnow 1\<rparr>)))"
proof -
  have idi: "it_id item = r_item_id m"
    using find_one_SomeD [OF assms] by simp
  have stored: "find_one (\<lambda>i. it_id i = r_item_id m)
                  (update_one (\<lambda>i. it_id i = r_item_id m)
                     (\<lambda>i. i\<lparr>current_stock := s, it_updated_at := utcnow 1\<rparr>)
                     (inventory_items db))
                = Some (item\<lparr>current_stock := s, it_updated_at := utcnow 1\<rparr>)" for s
    using find_one_update_one
            [OF assms, of "\<lambda>i. i\<lparr>current_stock := s, it_updated_at := utcnow 1\<rparr>"] idi
    by simp
  show ?thesis
  proof (intro conjI impI)
    assume out: "r_movement_type m = ''OUT'' \<and> 0 < r_quantity m
                 \<and> r_quantity m \<le> current_stock item"
    then have "0 \<le> current_stock item + (- r_quantity m)"
      and "- r_quantity m = (if r_movement_type m = ''OUT'' \<and> 0 < r_quantity m
                              then - r_quantity m else r_quantity m)"
      by simp_all
    from create_inventory_movement_accepted [OF assms this, of uuid4 utcnow]
      stored [of "current_stock item + (- r_quantity m)"]
    show "\<exists>db' mv.
                 create_inventory_movement uuid4 utcnow m db = (db', Inr mv)
               \<and> quantity mv = - r_quantity m
               \<and> stock_before mv = current_stock item
               \<and> stock_after mv = stock_before mv - r_quantity m
               \<and> inventory_movements db' = inventory_movements db @ [mv]
               \<and> find_one (\<lambda>i. it_id i = r_item_id m) (inventory_items db')
                   = Some (item\<lparr>current_stock := stock_after mv,
                                  it_updated_at := utcnow 1\<rparr>)"
      by simp
  next
    assume inn: "r_movement_type m = ''IN'' \<and> 0 \<le> current_stock item + r_quantity m"
    then have "0 \<le> current_stock item + r_quantity m"
      and "r_quantity m = (if r_movement_type m = ''OUT'' \<and> 0 < r_quantity m
                            then - r_quantity m else r_quantity m)"
      by simp_all
    from create_inventory_movement_accepted [OF assms this, of uuid4 utcnow]
      stored [of "current_stock item + r_quantity m"]
    show "\<exists>db' mv.
                 create_inventory_movement uuid4 utcnow m db = (db', Inr mv)
               \<and> quantity mv = r_quantity m
               \<and> stock_before mv = current_stock item
               \<and> stock_after mv = stock_before mv + r_quantity m
               \<and> inventory_movements db' = inventory_movements db @ [mv]
               \<and> find_one (\<lambda>i. it_id i = r_item_id m) (inventory_items db')
                   = Some (item\<lparr>current_stock := stock_after mv,
                                  it_updated_at := utcnow 1\<rparr>)"
      by simp
  qed
qed

theorem accepted_movement_record_witness:
  "(\<exists>db' mv.
      create_inventory_movement ''m1'' ex_clock ex_movement_out ex_db_inventory = (db', Inr mv)
      \<and> quantity mv = - 5 \<and> stock_before mv = 5 \<and> stock_after mv = 0
      \<and> inventory_movements db' = [mv]
      \<and> find_one (\<lambda>i. it_id i = ''i1'') (inventory_items db')
          = Some (ex_item\<lparr>current_stock := 0, it_updated_at := 1001\<rparr>))
   \<and> (\<exists>db' mv.
      create_inventory_movement ''m3'' ex_clock ex_movement_in ex_db_inventory = (db', Inr mv)
      \<and> quantity mv = 3 \<and> stock_before mv = 5 \<and> stock_after mv = 8
      \<and> inventory_movements db' = [mv]
      \<and> find_one (\<lambda>i. it_id i = ''i1'') (inventory_items db')
          = Some (ex_item\<lparr>current_stock := 8, it_updated_at := 1001\<rparr>))"
proof -
  have found_out: "find_one (\<lambda>i. it_id i = r_item_id ex_movement_out)
                     (inventory_items ex_db_inventory) = Some ex_item"
    and found_in: "find_one (\<lambda>i. it_id i = r_item_id ex_movement_in)
                     (inventory_items ex_db_inventory) = Some ex_item"
    by (simp_all add: find_one_def ex_db_inventory_def ex_item_def ex_movement_in_def
        ex_movement_out_def)
  have vals: "r_movement_type ex_movement_out = ''OUT''" "r_quantity ex_movement_out = 5"
    "r_movement_type ex_movement_in = ''IN''" "r_quantity ex_movement_in = 3"
    "current_stock ex_item = 5" "r_item_id ex_movement_out = ''i1''"
    "r_item_id ex_movement_in = ''i1''" "inventory_movements ex_db_inventory = []"
    "ex_clock 1 = 1001"
    by (simp_all add: ex_movement_in_def ex_movement_out_def ex_item_def ex_db_inventory_def
        ex_db_def ex_clock_def)
  from accepted_movement_record [OF found_out, of "''m1''" ex_clock] vals
  have a: "\<exists>db' mv.
      create_inventory_movement ''m1'' ex_clock ex_movement_out ex_db_inventory = (db', Inr mv)
      \<and> quantity mv = - 5 \<and> stock_before mv = 5 \<and> stock_after mv = 0
      \<and> inventory_movements db' = [mv]
      \<and> find_one (\<lambda>i. it_id i = ''i1'') (inventory_items db')
          = Some (ex_item\<lparr>current_stock := 0, it_updated_at := 1001\<rparr>)"
    by auto
  from accepted_movement_record [OF found_in, of "''m3''" ex_clock] vals
  have b: "\<exists>db' mv.
      create_inventory_movement ''m3'' ex_clock ex_movement_in ex_db_inventory = (db', Inr mv)
      \<and> quantity mv = 3 \<and> stock_before mv = 5 \<and> stock_after mv = 8
      \<and> inventory_movements db' = [mv]
      \<and> find_one (\<lambda>i. it_id i = ''i1'') (inventory_items db')
          = Some (ex_item\<lparr>current_stock := 8, it_updated_at := 1001\<rparr>)"
    by auto
  from a b show ?thesis by blast
qed

subsection \<open>Warning flags\<close>

lemma has_turbo_warning_iff:
  "has_turbo_warning db wo \<longleftrightarrow> (\<exists>n\<in>set (turbo_notes db). tn_turbo_code n = turbo_code wo)"
  by (auto simp: has_turbo_warning_def turbo_warnings_def filter_empty_conv)

lemma has_car_warning_iff:
  "has_car_warning db wo \<longleftrightarrow>
     (\<exists>n\<in>set (car_notes db). cn_car_make n = car_make wo \<and> cn_car_model n = car_model wo)"
  by (auto simp: has_car_warning_def car_warnings_def filter_empty_conv)

text \<open>
  C8. The flags count every note whose turbo code (or make and model) matches, active or
  not: with one turbo note and one car note that match the example order and are both
  inactive, both flags are raised although no active note matches.
\<close>

theorem inactive_notes_raise_warnings:
  "turbo_notes ex_db_notes = [ex_turbo_note] \<and> \<not> tn_active ex_turbo_note
   \<and> car_notes ex_db_notes = [ex_car_note] \<and> \<not> cn_active ex_car_note
   \<and> has_turbo_warning ex_db_notes ex_order
   \<and> has_car_warning ex_db_notes ex_order"
  by (simp add: has_turbo_warning_def has_car_warning_def turbo_warnings_def car_warnings_def
      ex_db_notes_def ex_turbo_note_def ex_car_note_def ex_order_def)

subsection \<open>The rendering \<open>format_05d\<close>\<close>

lemma digit_char_cases:
  assumes "d < 10"
  shows "d = 0 \<or> d = 1 \<or> d = 2 \<or> d = 3 \<or> d = 4 \<or> d = 5 \<or> d = 6 \<or> d = 7 \<or> d = 8
         \<or> d = (9::nat)"
  using assms by arith

lemma digit_char_props:
  assumes "d < 10"
  shows "is_digit (digit_char d)" and "digit_value (digit_char d) = d"
  using digit_char_cases [OF assms]
  by (auto simp: digit_char_def is_digit_def digit_value_def)

lemma parse_nat_snoc: "parse_nat (s @ [c]) = 10 * parse_nat s + digit_value c"
  by (simp add: parse_nat_def)

lemma str_nat_digits: "list_all is_digit (str_nat n)"
proof (induction n rule: str_nat.induct)
  case (1 n)
  show ?case
  proof (cases "n < 10")
    case True
    then show ?thesis
      by (subst str_nat.simps) (simp add: digit_char_props)
  next
    case False
    with 1 show ?thesis
      by (subst str_nat.simps) (simp add: digit_char_props)
  qed
qed

lemma parse_nat_str_nat: "parse_nat (str_nat n) = n"
proof (induction n rule: str_nat.induct)
  case (1 n)
  show ?case
  proof (cases "n < 10")
    case True
    then show ?thesis
      by (subst str_nat.simps) (simp add: parse_nat_def digit_char_props)
  next
    case False
    with 1 show ?thesis
      by (subst str_nat.simps) (simp add: parse_nat_snoc digit_char_props)
  qed
qed

lemma length_str_nat_pos: "0 < length (str_nat n)"
  by (subst str_nat.simps) simp

lemma length_str_nat_le: "n < 10 ^ k \<Longrightarrow> 0 < k \<Longrightarrow> length (str_nat n) \<le> k"
proof (induction n arbitrary: k rule: str_nat.induct)
  case (1 n)
  show ?case
  proof (cases "n < 10")
    case True
    with 1(3) show ?thesis
      by (subst str_nat.simps) simp
  next
    case False
    obtain j where k: "k = Suc j"
      using 1(3) by (cases k) auto
    have "j \<noteq> 0"
      using False 1(2) k by (cases j) auto
    moreover have "n div 10 < 10 ^ j"
      using 1(2) k by (simp add: less_mult_imp_div_less mult.commute)
    ultimately have "length (str_nat (n div 10)) \<le> j"
      using 1(1) [OF False, of j] by simp
    with False k show ?thesis
      by (subst str_nat.simps) simp
  qed
qed

lemma length_str_nat_gt: "10 ^ k \<le> n \<Longrightarrow> k < length (str_nat n)"
proof (induction n arbitrary: k rule: str_nat.induct)
  case (1 n)
  show ?case
  proof (cases k)
    case 0
    then show ?thesis using length_str_nat_pos [of n] by simp
  next
    case (Suc j)
    with 1(2) have ge: "10 * 10 ^ j \<le> n" by simp
    then have nl: "\<not> n < 10"
      by (metis (no_types, opaque_lifting) One_nat_def le_trans linorder_not_less mult.right_neutral
          mult_le_mono2 one_le_numeral one_le_power)
    from ge have "10 ^ j \<le> n div 10"
      by (simp add: less_eq_div_iff_mult_less_eq mult.commute)
    from 1(1) [OF nl this] have "j < length (str_nat (n div 10))" .
    with nl Suc show ?thesis
      by (subst str_nat.simps) simp
  qed
qed

lemma parse_nat_zero_fill: "parse_nat (zero_fill w s) = parse_nat s"
proof -
  have "foldl (\<lambda>a c. 10 * a + digit_value c) 0 (replicate k (CHR ''0'')) = 0" for k
    by (induction k) (simp_all add: digit_value_def)
  then show ?thesis
    by (simp add: parse_nat_def zero_fill_def)
qed

lemma format_05d_nonneg:
  assumes "0 \<le> n"
  shows "list_all is_digit (format_05d n)"
    and "parse_nat (format_05d n) = nat n"
    and "5 \<le> length (format_05d n)"
    and "length (format_05d n) = 5 \<longleftrightarrow> n \<le> 99999"
proof -
  have f: "format_05d n = zero_fill 5 (str_nat (nat n))"
    using assms by (simp add: format_05d_def)
  have z: "is_digit (CHR ''0'')"
    by (simp add: is_digit_def)
  show "list_all is_digit (format_05d n)"
    using str_nat_digits [of "nat n"] z
    by (auto simp: f zero_fill_def list_all_iff)
  show "parse_nat (format_05d n) = nat n"
    by (simp add: f parse_nat_zero_fill parse_nat_str_nat)
  show "5 \<le> length (format_05d n)"
    by (simp add: f zero_fill_def)
  show "length (format_05d n) = 5 \<longleftrightarrow> n \<le> 99999"
  proof
    assume "length (format_05d n) = 5"
    then have "length (str_nat (nat n)) \<le> 5"
      by (simp add: f zero_fill_def)
    then have "\<not> 10 ^ 5 \<le> nat n"
      using length_str_nat_gt [of 5 "nat n"] by auto
    then show "n \<le> 99999" by simp
  next
    assume "n \<le> 99999"
    then have "nat n < 10 ^ 5" using assms by simp
    from length_str_nat_le [OF this] show "length (format_05d n) = 5"
      by (simp add: f zero_fill_def)
  qed
qed

subsection \<open>The next sequence number\<close>

lemma hd_sort_key_least:
  assumes "xs \<noteq> []"
  shows "hd (sort_key g xs) \<in> set xs" and "\<forall>x\<in>set xs. g (hd (sort_key g xs)) \<le> g x"
proof -
  obtain y ys where ys: "sort_key g xs = y # ys"
    using assms by (cases "sort_key g xs") (auto dest: arg_cong [where f = length])
  have "set (y # ys) = set xs"
    by (simp add: ys [symmetric])
  moreover have "sorted (map g (y # ys))"
    by (simp add: ys [symmetric])
  ultimately show "hd (sort_key g xs) \<in> set xs"
    and "\<forall>x\<in>set xs. g (hd (sort_key g xs)) \<le> g x"
    by (auto simp: ys)
qed

lemma get_next_sequence_number_eq:
  "get_next_sequence_number db =
     (if work_orders db = [] then 1 else Max (work_sequence ` set (work_orders db)) + 1)"
proof (cases "work_orders db = []")
  case True
  then show ?thesis
    by (simp add: get_next_sequence_number_def to_list_def limit_def sort_desc_def)
next
  case False
  let ?ys = "sort_key (\<lambda>x. - work_sequence x) (work_orders db)"
  obtain y ys where ys: "?ys = y # ys"
    using False by (cases ?ys) (auto dest: arg_cong [where f = length])
  have next_eq: "get_next_sequence_number db = work_sequence y + 1"
    by (simp add: get_next_sequence_number_def to_list_def limit_def sort_desc_def ys)
  from hd_sort_key_least [OF False, of "\<lambda>x. - work_sequence x"]
  have "y \<in> set (work_orders db)" and "\<forall>x\<in>set (work_orders db). work_sequence x \<le> work_sequence y"
    by (simp_all add: ys)
  then have "Max (work_sequence ` set (work_orders db)) = work_sequence y"
    by (intro Max_eqI) auto
  with False next_eq show ?thesis by simp
qed

lemma str_nat_small: "n < 10 \<Longrightarrow> str_nat n = [digit_char n]"
  by (subst str_nat.simps) simp

lemma str_nat_large: "10 \<le> n \<Longrightarrow> str_nat n = str_nat (n div 10) @ [digit_char (n mod 10)]"
  by (subst str_nat.simps) simp

subsection \<open>Creating a work order\<close>

text \<open>The \<^verbatim>\<open>.dict()\<close> of a \<^verbatim>\<open>WorkOrder\<close> holds \<open>received_date\<close>, a \<^verbatim>\<open>datetime.date\<close>: the
  driver never encodes it. It raises \<open>OverflowError\<close> when it meets an integer of more
  than 8 bytes before it reaches \<open>received_date\<close>, and \<open>InvalidDocument\<close> otherwise.\<close>

lemma bson_error_WorkOrder_dict:
  "bson_error (PyDict (WorkOrder_dict d))
     = Some (if int64 (work_sequence d) \<and> pred_option int64 (car_year d)
             then InvalidDocument else OverflowError)"
  by (simp add: WorkOrder_dict_def bson_error_optional)

text \<open>So a request whose client exists ends in that exception with the database as it
  was, and a request whose client does not exist ends in \<open>HTTPException 400\<close>: no
  request stores a work order.\<close>

lemma create_work_order_known_client:
  assumes "find_one (\<lambda>c. cl_id c = c_client_id wo) (clients db) = Some client"
  shows "create_work_order uuid4 today utcnow wo db
           = (db, Inl (if int64 (get_next_sequence_number db)
                          \<and> pred_option int64 (c_car_year wo)
                       then InvalidDocument else OverflowError))"
  using assms
  by (simp add: create_work_order_def Let_def bson_error_WorkOrder_dict
      del: bson_error.simps)

lemma create_work_order_stores_nothing:
  "fst (create_work_order uuid4 today utcnow wo db) = db"
  "isl (snd (create_work_order uuid4 today utcnow wo db))"
proof -
  show "fst (create_work_order uuid4 today utcnow wo db) = db"
  proof (cases "find_one (\<lambda>c. cl_id c = c_client_id wo) (clients db)")
    case None
    then show ?thesis by (simp add: create_work_order_def)
  next
    case (Some client)
    then show ?thesis by (simp add: create_work_order_known_client)
  qed
  show "isl (snd (create_work_order uuid4 today utcnow wo db))"
  proof (cases "find_one (\<lambda>c. cl_id c = c_client_id wo) (clients db)")
    case None
    then show ?thesis by (simp add: create_work_order_def)
  next
    case (Some client)
    then show ?thesis by (simp add: create_work_order_known_client)
  qed
qed

text \<open>
  C2. The database holds the client \<open>c1\<close> and one work order, of sequence 1. For a
  request that names the client \<open>c1\<close>, \<open>create_work_order\<close> finds the client, computes
  the next sequence 2 and the work number \<open>00002\<close>, and builds the record; the
  \<^verbatim>\<open>insert_one\<close> of its \<^verbatim>\<open>.dict()\<close> then raises \<open>InvalidDocument\<close>, so the request ends
  in that exception, nothing is returned and the database is as it was: no record with
  sequence 2, status \<open>DRAFT\<close> and \<open>is_finalized\<close> false is persisted.
\<close>

theorem create_work_order_insert_raises:
  "clients ex_db = [ex_client]
   \<and> cl_id ex_client = c_client_id ex_create
   \<and> work_orders ex_db = [ex_order]
   \<and> work_sequence ex_order = 1
   \<and> get_next_sequence_number ex_db = 2
   \<and> format_05d (get_next_sequence_number ex_db) = ''00002''
   \<and> create_work_order ''w2'' 7 ex_clock ex_create ex_db = (ex_db, Inl InvalidDocument)
   \<and> work_orders (fst (create_work_order ''w2'' 7 ex_clock ex_create ex_db)) = [ex_order]"
proof -
  have c: "clients ex_db = [ex_client]" and o: "work_orders ex_db = [ex_order]"
    by (simp_all add: ex_db_def)
  have i: "cl_id ex_client = c_client_id ex_create"
    by (simp add: ex_client_def ex_create_def)
  have q: "work_sequence ex_order = 1"
    by (simp add: ex_order_def)
  have n: "get_next_sequence_number ex_db = 2"
    by (simp add: get_next_sequence_number_eq o q)
  have f: "format_05d 2 = ''00002''"
    by (simp add: format_05d_def zero_fill_def str_nat_small digit_char_def eval_nat_numeral)
  have y: "c_car_year ex_create = Some 2012"
    by (simp add: ex_create_def)
  have client: "find_one (\<lambda>c. cl_id c = c_client_id ex_create) (clients ex_db)
                  = Some ex_client"
    by (simp add: find_one_def c i)
  have r: "create_work_order ''w2'' 7 ex_clock ex_create ex_db = (ex_db, Inl InvalidDocument)"
    by (simp add: create_work_order_known_client [OF client] n y int64_def)
  from c i o q n f r show ?thesis
    by simp
qed

subsection \<open>Collections with distinct identifiers\<close>

lemma update_one_no_match: "\<forall>x\<in>set xs. \<not> q x \<Longrightarrow> update_one q f xs = xs"
  by (induction xs) simp_all

lemma update_one_distinct:
  "distinct (map key xs) \<Longrightarrow>
   update_one (\<lambda>d. key d = k) f xs = map (\<lambda>d. if key d = k then f d else d) xs"
proof (induction xs)
  case Nil
  then show ?case by simp
next
  case (Cons x xs)
  show ?case
  proof (cases "key x = k")
    case True
    with Cons.prems have "k \<notin> key ` set xs"
      by auto
    then have "\<forall>y\<in>set xs. key y \<noteq> k"
      by blast
    then have "map (\<lambda>d. if key d = k then f d else d) xs = xs"
      by (simp add: map_idI)
    with True show ?thesis by simp
  next
    case False
    with Cons show ?thesis by simp
  qed
qed

lemma delete_one_distinct:
  "distinct (map key xs) \<Longrightarrow>
   fst (delete_one (\<lambda>d. key d = k) xs) = filter (\<lambda>d. key d \<noteq> k) xs"
proof (induction xs)
  case Nil
  then show ?case by simp
next
  case (Cons x xs)
  show ?case
  proof (cases "key x = k")
    case True
    with Cons.prems have "k \<notin> key ` set xs"
      by auto
    then have "\<forall>y\<in>set xs. key y \<noteq> k"
      by blast
    then have "filter (\<lambda>d. key d \<noteq> k) xs = xs"
      by simp
    with True show ?thesis by simp
  next
    case False
    with Cons show ?thesis by (auto split: prod.splits)
  qed
qed

lemma length_delete_one_count:
  "length (fst (delete_one q xs)) + snd (delete_one q xs) = length xs"
  by (induction xs) (auto split: prod.splits)

lemma length_delete_one:
  "find_one q xs = Some x \<Longrightarrow> length (fst (delete_one q xs)) = length xs - 1"
  using length_delete_one_count [of q xs] delete_one_found [of q xs x] by simp

lemma insort_key_map:
  assumes "\<And>x. g (h x) = g x"
  shows "insort_key g (h x) (map h ys) = map h (insort_key g x ys)"
  by (induction ys) (simp_all add: assms)

lemma sort_key_map:
  assumes "\<And>x. g (h x) = g x"
  shows "sort_key g (map h xs) = map h (sort_key g xs)"
  by (induction xs) (simp_all add: insort_key_map [of g h, OF assms])

lemma sort_of_sorted_perm:
  assumes "mset ys = mset xs" and "sorted ys"
  shows "sort xs = ys"
  using assms by (metis properties_for_sort)

subsection \<open>The renumbering pass\<close>

lemma renumber_fields:
  "wo_id (renumber utcnow i d) = wo_id d"
  "created_at (renumber utcnow i d) = created_at d"
  "work_sequence (renumber utcnow i d) = int i"
  "work_number (renumber utcnow i d) = format_05d (int i)"
  "updated_at (renumber utcnow i d) = utcnow (i - 1)"
  by (simp_all add: renumber_def)

lemma fold_work_orders:
  "fold (\<lambda>(i, w) db'. db'\<lparr>work_orders := F i w (work_orders db')\<rparr>) ps db
   = db\<lparr>work_orders := fold (\<lambda>(i, w). F i w) ps (work_orders db)\<rparr>"
  by (induction ps arbitrary: db) (simp_all split: prod.splits)

lemma map_wo_id_renumber:
  "map wo_id (map (\<lambda>d. if q d then renumber utcnow i d else d) ws) = map wo_id ws"
  by (induction ws) (simp_all add: renumber_fields)

lemma fold_update_one_distinct:
  "distinct (map wo_id ws) \<Longrightarrow>
   fold (\<lambda>(i, w). update_one (\<lambda>d. wo_id d = wo_id w) (renumber utcnow i)) ps ws
   = fold (\<lambda>(i, w). map (\<lambda>d. if wo_id d = wo_id w then renumber utcnow i d else d)) ps ws"
proof (induction ps arbitrary: ws)
  case Nil
  then show ?case by simp
next
  case (Cons p ps)
  obtain i w where p: "p = (i, w)" by (cases p)
  let ?ws = "map (\<lambda>d. if wo_id d = wo_id w then renumber utcnow i d else d) ws"
  have "map wo_id ?ws = map wo_id ws"
    by (rule map_wo_id_renumber)
  with Cons.prems have "distinct (map wo_id ?ws)"
    by (simp only:)
  from Cons.IH [OF this] update_one_distinct [OF Cons.prems, of "wo_id w" "renumber utcnow i"]
  show ?case
    by (simp add: p)
qed

lemma sort_key_fold_map:
  "sort_key created_at
     (fold (\<lambda>(i, w). map (\<lambda>d. if wo_id d = wo_id w then renumber utcnow i d else d)) ps ws)
   = fold (\<lambda>(i, w). map (\<lambda>d. if wo_id d = wo_id w then renumber utcnow i d else d)) ps
       (sort_key created_at ws)"
proof (induction ps arbitrary: ws)
  case Nil
  then show ?case by simp
next
  case (Cons p ps)
  obtain i w where p: "p = (i, w)" by (cases p)
  have "sort_key created_at
          (map (\<lambda>d. if wo_id d = wo_id w then renumber utcnow i d else d) ws)
        = map (\<lambda>d. if wo_id d = wo_id w then renumber utcnow i d else d)
            (sort_key created_at ws)"
    by (rule sort_key_map) (simp add: renumber_fields)
  with Cons.IH show ?case
    by (simp add: p)
qed

lemma notin_image_neq: "k \<notin> f ` A \<Longrightarrow> \<forall>d\<in>A. f d \<noteq> k"
  by blast

lemma fold_map_enumerate:
  "distinct (map wo_id (P @ S @ R)) \<Longrightarrow>
   fold (\<lambda>(i, w). map (\<lambda>d. if wo_id d = wo_id w then renumber utcnow i d else d))
     (enumerate k S) (P @ S @ R)
   = P @ map (\<lambda>(i, d). renumber utcnow i d) (enumerate k S) @ R"
proof (induction S arbitrary: P k)
  case Nil
  then show ?case by simp
next
  case (Cons y S)
  let ?h = "\<lambda>d. if wo_id d = wo_id y then renumber utcnow k d else d"
  from Cons.prems have n: "wo_id y \<notin> wo_id ` set P"
    "wo_id y \<notin> wo_id ` set S" "wo_id y \<notin> wo_id ` set R"
    by auto
  have "\<forall>d\<in>set P. wo_id d \<noteq> wo_id y"
    and "\<forall>d\<in>set S. wo_id d \<noteq> wo_id y" and "\<forall>d\<in>set R. wo_id d \<noteq> wo_id y"
    by (rule n [THEN notin_image_neq])+
  then have "map ?h P = P" "map ?h S = S" "map ?h R = R"
    by (simp_all add: map_idI)
  then have step: "map ?h (P @ (y # S) @ R) = (P @ [renumber utcnow k y]) @ S @ R"
    by simp
  have "map wo_id ((P @ [renumber utcnow k y]) @ S @ R) = map wo_id (P @ (y # S) @ R)"
    by (simp add: renumber_fields)
  with Cons.prems have "distinct (map wo_id ((P @ [renumber utcnow k y]) @ S @ R))"
    by (simp only:)
  from Cons.IH [OF this, of "Suc k"] step show ?case
    by (simp add: enumerate_simps)
qed

lemma distinct_map_sort_key:
  "distinct (map f (sort_key g xs)) = distinct (map f xs)"
proof -
  have "mset (map f (sort_key g xs)) = mset (map f xs)"
    by simp
  then show ?thesis
    by (rule mset_eq_imp_distinct_iff)
qed

lemma recalculate_sequence_numbers_sorted:
  assumes "distinct (map wo_id (work_orders db))"
  shows "recalculate_sequence_numbers utcnow db
           = db\<lparr>work_orders := work_orders (recalculate_sequence_numbers utcnow db)\<rparr>"
    and "sort_key created_at (work_orders (recalculate_sequence_numbers utcnow db))
           = map (\<lambda>(i, d). renumber utcnow i d)
               (enumerate 1 (take 1000 (sort_key created_at (work_orders db))))
             @ drop 1000 (sort_key created_at (work_orders db))"
proof -
  let ?S = "sort_key created_at (work_orders db)"
  let ?ps = "enumerate 1 (take 1000 ?S)"
  have r: "recalculate_sequence_numbers utcnow db
             = db\<lparr>work_orders :=
                    fold (\<lambda>(i, w). update_one (\<lambda>d. wo_id d = wo_id w) (renumber utcnow i))
                      ?ps (work_orders db)\<rparr>"
    by (simp add: recalculate_sequence_numbers_def to_list_def sort_asc_def Let_def
        fold_work_orders
          [of "\<lambda>i w. update_one (\<lambda>d. wo_id d = wo_id w) (renumber utcnow i)"])
  then show "recalculate_sequence_numbers utcnow db
           = db\<lparr>work_orders := work_orders (recalculate_sequence_numbers utcnow db)\<rparr>"
    by simp
  have d: "distinct (map wo_id ([] @ take 1000 ?S @ drop 1000 ?S))"
    using assms by (simp add: distinct_map_sort_key)
  have "sort_key created_at (work_orders (recalculate_sequence_numbers utcnow db))
          = fold (\<lambda>(i, w). map (\<lambda>d. if wo_id d = wo_id w then renumber utcnow i d else d))
              ?ps ([] @ take 1000 ?S @ drop 1000 ?S)"
    by (simp add: r fold_update_one_distinct [OF assms] sort_key_fold_map)
  also have "\<dots> = [] @ map (\<lambda>(i, d). renumber utcnow i d) ?ps @ drop 1000 ?S"
    by (rule fold_map_enumerate [OF d])
  finally show "sort_key created_at (work_orders (recalculate_sequence_numbers utcnow db))
           = map (\<lambda>(i, d). renumber utcnow i d) ?ps @ drop 1000 ?S"
    by simp
qed

lemma map_wo_id_fold:
  "map wo_id
     (fold (\<lambda>(i, w). map (\<lambda>d. if wo_id d = wo_id w then renumber utcnow i d else d)) ps ws)
   = map wo_id ws"
proof (induction ps arbitrary: ws)
  case Nil
  then show ?case by simp
next
  case (Cons p ps)
  obtain i w where p: "p = (i, w)" by (cases p)
  show ?case
    by (simp add: p Cons.IH map_wo_id_renumber del: map_map)
qed

lemma map_wo_id_recalculate:
  assumes "distinct (map wo_id (work_orders db))"
  shows "map wo_id (work_orders (recalculate_sequence_numbers utcnow db))
           = map wo_id (work_orders db)"
proof -
  have "recalculate_sequence_numbers utcnow db
          = db\<lparr>work_orders :=
                 fold (\<lambda>(i, w). update_one (\<lambda>d. wo_id d = wo_id w) (renumber utcnow i))
                   (enumerate 1 (take 1000 (sort_key created_at (work_orders db))))
                   (work_orders db)\<rparr>"
    by (simp add: recalculate_sequence_numbers_def to_list_def sort_asc_def Let_def
        fold_work_orders
          [of "\<lambda>i w. update_one (\<lambda>d. wo_id d = wo_id w) (renumber utcnow i)"])
  then show ?thesis
    by (simp add: fold_update_one_distinct [OF assms] map_wo_id_fold)
qed

lemma map_work_sequence_renumbered:
  "map work_sequence (map (\<lambda>(i, d). renumber utcnow i d) (enumerate k S))
   = map int [k..<k + length S]"
proof -
  have a: "map work_sequence (map (\<lambda>(i, d). renumber utcnow i d) ps) = map int (map fst ps)"
    for ps :: "(nat \<times> WorkOrder) list"
    by (induction ps) (auto simp: renumber_fields)
  show ?thesis
    by (simp only: a map_fst_enumerate)
qed

lemma sorted_map_int_upt: "sorted (map int [m..<n])"
  by (simp add: sorted_map)

lemma dense_after_recalculate:
  assumes "distinct (map wo_id (work_orders db))"
    and "length (work_orders db) \<le> 1000"
  shows "sort_key created_at (work_orders (recalculate_sequence_numbers utcnow db))
           = map (\<lambda>(i, d). renumber utcnow i d)
               (enumerate 1 (sort_key created_at (work_orders db)))"
    and "sort (map work_sequence (work_orders (recalculate_sequence_numbers utcnow db)))
           = map int [1..<Suc (length (work_orders db))]"
proof -
  let ?db' = "recalculate_sequence_numbers utcnow db"
  let ?S = "sort_key created_at (work_orders db)"
  have "length ?S \<le> 1000"
    using assms(2) by simp
  then have "take 1000 ?S = ?S" "drop 1000 ?S = []"
    by simp_all
  with recalculate_sequence_numbers_sorted(2) [OF assms(1), of utcnow]
  show s: "sort_key created_at (work_orders ?db')
             = map (\<lambda>(i, d). renumber utcnow i d) (enumerate 1 ?S)"
    by simp
  have "mset (map work_sequence (work_orders ?db'))
          = mset (map work_sequence (sort_key created_at (work_orders ?db')))"
    by simp
  also have "\<dots> = mset (map int [1..<Suc (length (work_orders db))])"
    by (simp only: s map_work_sequence_renumbered) simp
  finally have "mset (map int [1..<Suc (length (work_orders db))])
                  = mset (map work_sequence (work_orders ?db'))"
    by simp
  then show "sort (map work_sequence (work_orders ?db'))
               = map int [1..<Suc (length (work_orders db))]"
    by (rule sort_of_sorted_perm) (rule sorted_map_int_upt)
qed

subsection \<open>Sequence density\<close>

text \<open>
  C1 (as amended). In a collection whose identifiers are distinct and which holds at
  most 1001 work orders, deleting a work order that is not finalized succeeds, removes
  that order and no other, and leaves the survivors renumbered: taken in ascending order
  of \<open>created_at\<close>, each survivor has \<open>work_sequence\<close> equal to its 1-based position,
  \<open>work_number\<close> the \<^verbatim>\<open>05d\<close> rendering of that position and \<open>updated_at\<close> read from
  the clock, so the sequences sorted ascending are 1, 2, ..., N - 1.
\<close>

theorem delete_work_order_renumbers:
  "distinct (map wo_id (work_orders db))
      \<and> find_one (\<lambda>d. wo_id d = work_order_id) (work_orders db) = Some work_order
      \<and> \<not> is_finalized work_order
      \<and> length (work_orders db) \<le> 1001
    \<longrightarrow> (\<exists>db'.
           delete_work_order utcnow work_order_id db = (db', Inr ())
         \<and> map wo_id (work_orders db')
             = filter (\<lambda>i. i \<noteq> work_order_id) (map wo_id (work_orders db))
         \<and> length (work_orders db') = length (work_orders db) - 1
         \<and> sort (map work_sequence (work_orders db'))
             = map int [1..<Suc (length (work_orders db'))]
         \<and> sort_asc created_at (work_orders db')
             = map (\<lambda>(index, d). d\<lparr>work_sequence := int index,
                                   work_number := format_05d (int index),
                                   updated_at := utcnow (index - 1)\<rparr>)
                 (enumerate 1
                    (sort_asc created_at
                       (filter (\<lambda>d. wo_id d \<noteq> work_order_id) (work_orders db)))))"
proof (intro impI)
  assume a: "distinct (map wo_id (work_orders db))
      \<and> find_one (\<lambda>d. wo_id d = work_order_id) (work_orders db) = Some work_order
      \<and> \<not> is_finalized work_order
      \<and> length (work_orders db) \<le> 1001"
  then have dist: "distinct (map wo_id (work_orders db))"
    and found: "find_one (\<lambda>d. wo_id d = work_order_id) (work_orders db) = Some work_order"
    and nf: "\<not> is_finalized work_order"
    and le: "length (work_orders db) \<le> 1001"
    by simp_all
  let ?ws = "filter (\<lambda>d. wo_id d \<noteq> work_order_id) (work_orders db)"
  let ?db1 = "db\<lparr>work_orders := ?ws\<rparr>"
  let ?db' = "recalculate_sequence_numbers utcnow ?db1"
  have rem: "fst (delete_one (\<lambda>d. wo_id d = work_order_id) (work_orders db)) = ?ws"
    by (rule delete_one_distinct [OF dist])
  have cnt: "snd (delete_one (\<lambda>d. wo_id d = work_order_id) (work_orders db)) = 1"
    by (rule delete_one_found [OF found])
  have del: "delete_one (\<lambda>d. wo_id d = work_order_id) (work_orders db) = (?ws, 1)"
    by (simp add: prod_eq_iff rem cnt)
  have res: "delete_work_order utcnow work_order_id db = (?db', Inr ())"
    using found nf by (simp add: delete_work_order_def Let_def del)
  have len: "length ?ws = length (work_orders db) - 1"
    using length_delete_one [OF found] rem by simp
  have dist1: "distinct (map wo_id (work_orders ?db1))"
    using dist by (simp add: distinct_map_filter)
  have le1: "length (work_orders ?db1) \<le> 1000"
    using len le by simp
  have ids: "map wo_id (work_orders ?db')
               = filter (\<lambda>i. i \<noteq> work_order_id) (map wo_id (work_orders db))"
    using map_wo_id_recalculate [OF dist1, of utcnow]
    by (simp add: filter_map comp_def)
  have len': "length (work_orders ?db') = length (work_orders db) - 1"
    using arg_cong [OF map_wo_id_recalculate [OF dist1, of utcnow], of length] len
    by simp
  have dense: "sort (map work_sequence (work_orders ?db'))
                 = map int [1..<Suc (length (work_orders ?db'))]"
    using dense_after_recalculate(2) [OF dist1 le1, of utcnow] len len'
    by simp
  have pos: "sort_asc created_at (work_orders ?db')
               = map (\<lambda>(index, d). d\<lparr>work_sequence := int index,
                                     work_number := format_05d (int index),
                                     updated_at := utcnow (index - 1)\<rparr>)
                   (enumerate 1 (sort_asc created_at ?ws))"
    using dense_after_recalculate(1) [OF dist1 le1, of utcnow]
    by (simp add: sort_asc_def renumber_def)
  from res ids len' dense pos
  show "\<exists>db'.
           delete_work_order utcnow work_order_id db = (db', Inr ())
         \<and> map wo_id (work_orders db')
             = filter (\<lambda>i. i \<noteq> work_order_id) (map wo_id (work_orders db))
         \<and> length (work_orders db') = length (work_orders db) - 1
         \<and> sort (map work_sequence (work_orders db'))
             = map int [1..<Suc (length (work_orders db'))]
         \<and> sort_asc created_at (work_orders db')
             = map (\<lambda>(index, d). d\<lparr>work_sequence := int index,
                                   work_number := format_05d (int index),
                                   updated_at := utcnow (index - 1)\<rparr>)
                 (enumerate 1
                    (sort_asc created_at
                       (filter (\<lambda>d. wo_id d \<noteq> work_order_id) (work_orders db))))"
    by blast
qed

theorem delete_work_order_renumbers_witness:
  "distinct (map wo_id (work_orders ex_db3))
   \<and> find_one (\<lambda>d. wo_id d = ''w1'') (work_orders ex_db3) = Some ex_order
   \<and> \<not> is_finalized ex_order
   \<and> map work_sequence (work_orders ex_db3) = [1, 2, 3]
   \<and> (\<exists>db'.
         delete_work_order ex_clock ''w1'' ex_db3 = (db', Inr ())
       \<and> map wo_id (work_orders db') = [''w2'', ''w3'']
       \<and> sort (map work_sequence (work_orders db')) = [1, 2]
       \<and> sort_asc created_at (work_orders db')
           = [ex_order2\<lparr>work_sequence := 1, work_number := ''00001'', updated_at := 1000\<rparr>,
              ex_order3\<lparr>work_sequence := 2, work_number := ''00002'', updated_at := 1001\<rparr>])"
proof -
  have orders: "work_orders ex_db3 = [ex_order, ex_order2, ex_order3]"
    by (simp add: ex_db3_def)
  have ids: "wo_id ex_order = ''w1''" "wo_id ex_order2 = ''w2''" "wo_id ex_order3 = ''w3''"
    and times: "created_at ex_order2 = 20" "created_at ex_order3 = 30"
    and seqs: "work_sequence ex_order = 1" "work_sequence ex_order2 = 2"
      "work_sequence ex_order3 = 3"
    and nf: "\<not> is_finalized ex_order"
    by (simp_all add: ex_order_def ex_order2_def ex_order3_def)
  have dist: "distinct (map wo_id (work_orders ex_db3))"
    by (simp add: orders ids)
  have found: "find_one (\<lambda>d. wo_id d = ''w1'') (work_orders ex_db3) = Some ex_order"
    by (simp add: find_one_def orders ids)
  have len: "length (work_orders ex_db3) \<le> 1001"
    by (simp add: orders)
  have survivors: "sort_asc created_at (filter (\<lambda>d. wo_id d \<noteq> ''w1'') (work_orders ex_db3))
                     = [ex_order2, ex_order3]"
    by (simp add: orders ids times sort_asc_def)
  have numbers: "format_05d 1 = ''00001''" "format_05d 2 = ''00002''"
    by (simp_all add: format_05d_def zero_fill_def str_nat_small digit_char_def
        eval_nat_numeral)
  have clock: "ex_clock 0 = 1000" "ex_clock (Suc 0) = 1001"
    by (simp_all add: ex_clock_def)
  have pairs: "enumerate 1 [ex_order2, ex_order3] = [(1, ex_order2), (2, ex_order3)]"
    by (simp add: enumerate_simps eval_nat_numeral)
  note inst = delete_work_order_renumbers
    [where db = ex_db3 and work_order_id = "''w1''" and work_order = ex_order
       and utcnow = ex_clock]
  from inst dist found nf len
  obtain db' where
    res: "delete_work_order ex_clock ''w1'' ex_db3 = (db', Inr ())"
    and ids': "map wo_id (work_orders db')
                 = filter (\<lambda>i. i \<noteq> ''w1'') (map wo_id (work_orders ex_db3))"
    and dense': "sort (map work_sequence (work_orders db'))
                   = map int [1..<Suc (length (work_orders db'))]"
    and pos: "sort_asc created_at (work_orders db')
                = map (\<lambda>(index, d). d\<lparr>work_sequence := int index,
                                      work_number := format_05d (int index),
                                      updated_at := ex_clock (index - 1)\<rparr>)
                    (enumerate 1
                       (sort_asc created_at
                          (filter (\<lambda>d. wo_id d \<noteq> ''w1'') (work_orders ex_db3))))"
    by blast
  have a: "map wo_id (work_orders db') = [''w2'', ''w3'']"
    by (simp add: ids' orders ids)
  then have "length (work_orders db') = 2"
    by (metis length_map length_Cons list.size(3) numeral_2_eq_2)
  with dense' have b: "sort (map work_sequence (work_orders db')) = [1, 2]"
    by (simp add: upt_rec)
  have c: "sort_asc created_at (work_orders db')
           = [ex_order2\<lparr>work_sequence := 1, work_number := ''00001'', updated_at := 1000\<rparr>,
              ex_order3\<lparr>work_sequence := 2, work_number := ''00002'', updated_at := 1001\<rparr>]"
    by (simp add: pos survivors pairs numbers clock)
  have e: "map work_sequence (work_orders ex_db3) = [1, 2, 3]"
    by (simp add: orders seqs)
  have ex: "\<exists>db'.
         delete_work_order ex_clock ''w1'' ex_db3 = (db', Inr ())
       \<and> map wo_id (work_orders db') = [''w2'', ''w3'']
       \<and> sort (map work_sequence (work_orders db')) = [1, 2]
       \<and> sort_asc created_at (work_orders db')
           = [ex_order2\<lparr>work_sequence := 1, work_number := ''00001'', updated_at := 1000\<rparr>,
              ex_order3\<lparr>work_sequence := 2, work_number := ''00002'', updated_at := 1001\<rparr>]"
    by (rule exI [of _ db']) (simp only: res a b c simp_thms)
  show ?thesis
    by (intro conjI) (rule dist found nf e ex)+
qed

text \<open>
  A partial update that supplies \<open>work_sequence\<close> leaves a collection of one work order
  whose only sequence is 7: the sequences are not 1, ..., N.
\<close>

theorem update_breaks_sequence_density:
  "sort (map work_sequence (work_orders ex_db)) = [1]
   \<and> length (work_orders (fst (update_work_order ex_clock ''w1'' ex_update_sequence ex_db))) = 1
   \<and> sort (map work_sequence
             (work_orders (fst (update_work_order ex_clock ''w1'' ex_update_sequence ex_db))))
       = [7]
   \<and> sort (map work_sequence
             (work_orders (fst (update_work_order ex_clock ''w1'' ex_update_sequence ex_db))))
       \<noteq> [1]"
proof -
  have h: "find_one (\<lambda>d. wo_id d = ''w1'') (work_orders ex_db) = Some ex_order"
    by (simp add: find_one_def ex_db_def ex_order_def)
  have e: "update_data ex_update_sequence \<noteq> []"
    by (simp add: update_data_Nil_iff ex_update_sequence_def empty_update_def)
  have enc: "bson_error (PyDict (update_data ex_update_sequence
                                  @ [(''updated_at'', PyDatetime (ex_clock 0))])) = None"
    by (simp add: bson_error_update_data ex_update_sequence_def empty_update_def int64_def
        del: bson_error.simps)
  have s: "set_update_data ex_update_sequence (ex_clock 0) ex_order
             = ex_order\<lparr>work_sequence := 7, updated_at := 1000\<rparr>"
    by (simp add: set_update_data_def set_field_def ex_update_sequence_def empty_update_def
        ex_clock_def)
  from update_work_order_result(1) [where utcnow = ex_clock, OF h enc] e s show ?thesis
    by (simp add: ex_db_def ex_order_def)
qed

end
